theory Spec2Isabelle
  imports Main "HOL-Library.Word" "HOL-Library.Signed_Division"
begin

unbundle bit_operations_syntax

section \<open>Data model of glamor.c\<close>

text \<open>
  A function pointer is identified by the function it points to. The backend's own
  functions that glamor.c stores into (or registers with) the host are named one by one;
  \<open>Fn_host n\<close> is any function that does not belong to the backend (the host's
  implementation, or another interceptor installed earlier), \<open>Fn_NULL\<close> the null pointer.
\<close>

datatype fnptr =
    Fn_NULL
  | Fn_glamor_close_screen
  | Fn_glamor_create_gc
  | Fn_glamor_create_pixmap
  | Fn_glamor_destroy_pixmap
  | Fn_glamor_get_spans
  | Fn_glamor_get_image
  | Fn_glamor_change_window_attributes
  | Fn_glamor_copy_window
  | Fn_glamor_bitmap_to_region
  | Fn_glamor_composite
  | Fn_glamor_trapezoids
  | Fn_glamor_glyphs
  | Fn_glamor_triangles
  | Fn_glamor_add_traps
  | Fn_glamor_glyph_unrealize
  | Fn_glamor_create_picture
  | Fn_glamor_destroy_picture
  | Fn_u_glamor_block_handler
  | Fn_u_glamor_wakeup_handler
  | Fn_host nat

text \<open>
  \<open>Fn_u_glamor_block_handler\<close> and \<open>Fn_u_glamor_wakeup_handler\<close> are the static functions
  \<^verbatim>\<open>_glamor_block_handler\<close> and \<^verbatim>\<open>_glamor_wakeup_handler\<close> (an identifier cannot start
  with an underscore here).
\<close>

text \<open>\<^verbatim>\<open>glamor_priv->saved_procs\<close>: one field per assignment in \<^verbatim>\<open>glamor_init\<close>.\<close>

record saved_procs_rec =
  close_screen :: fnptr
  create_gc :: fnptr
  create_pixmap :: fnptr
  destroy_pixmap :: fnptr
  get_spans :: fnptr
  get_image :: fnptr
  change_window_attributes :: fnptr
  copy_window :: fnptr
  bitmap_to_region :: fnptr
  composite :: fnptr
  trapezoids :: fnptr
  glyphs :: fnptr
  triangles :: fnptr
  addtraps :: fnptr
  unrealize_glyph :: fnptr
  create_picture :: fnptr
  destroy_picture :: fnptr

datatype glamor_gl_flavor = GLAMOR_GL_DESKTOP | GLAMOR_GL_ES2

text \<open>
  \<^verbatim>\<open>glamor_screen_private\<close>, the context record: the fields that glamor.c reads or writes.
  \<open>dispatch_initialized\<close> stands for the GL dispatch table filled by
  \<^verbatim>\<open>glamor_gl_dispatch_init\<close>.
\<close>

record glamor_screen_private =
  yInverted :: int
  saved_procs :: saved_procs_rec
  flags :: "32 word"
  has_pack_invert :: bool
  has_fbo_blit :: bool
  max_fbo_size :: int
  tick :: "32 word"
  gl_flavor :: glamor_gl_flavor
  dispatch_initialized :: bool

text \<open>The picture screen (\<^verbatim>\<open>PictureScreenPtr ps\<close>): the slots glamor.c touches.\<close>

record PictureScreenRec =
  Composite :: fnptr
  Trapezoids :: fnptr
  Glyphs :: fnptr
  Triangles :: fnptr
  AddTraps :: fnptr
  UnrealizeGlyph :: fnptr
  CreatePicture :: fnptr
  DestroyPicture :: fnptr

text \<open>
  The screen (\<^verbatim>\<open>ScreenPtr screen\<close>): its operation slots, the picture screen that
  \<^verbatim>\<open>GetPictureScreenIfSet\<close> returns (\<open>None\<close> is NULL) and the entry of
  \<^verbatim>\<open>screen->devPrivates\<close> under \<^verbatim>\<open>glamor_screen_private_key\<close> (\<open>None\<close> is NULL).
  The context record is reachable only through that entry, so it is stored in it by value.
\<close>

record ScreenRec =
  CloseScreen :: fnptr
  CreateGC :: fnptr
  CreatePixmap :: fnptr
  DestroyPixmap :: fnptr
  GetSpans :: fnptr
  GetImage :: fnptr
  ChangeWindowAttributes :: fnptr
  CopyWindow :: fnptr
  BitmapToRegion :: fnptr
  picture_screen :: "PictureScreenRec option"
  screen_private :: "glamor_screen_private option"

text \<open>A render target (\<^verbatim>\<open>glamor_pixmap_fbo *\<close>) is identified by its address.\<close>

type_synonym fbo_ptr = nat

text \<open>
  \<^verbatim>\<open>glamor_pixmap_private\<close>, the binding record of a pixmap: an object of its own on the
  heap, allocated with \<^verbatim>\<open>calloc\<close> and released with \<^verbatim>\<open>free\<close>. \<open>container\<close> is the
  address of the owning pixmap and \<open>fbo\<close> the render target, \<open>None\<close> being NULL for both;
  \<open>pixmap_type\<close> is the value of the enumeration \<^verbatim>\<open>glamor_pixmap_type_t\<close>. The
  back-reference \<^verbatim>\<open>glamor_priv\<close> always points to the one context record of the screen.
\<close>

record glamor_pixmap_private =
  container :: "nat option"
  pixmap_type :: int
  fbo :: "fbo_ptr option"

text \<open>
  A pixmap (\<^verbatim>\<open>PixmapRec\<close>): the drawable header, the reference count and the entry of
  \<^verbatim>\<open>pixmap->devPrivates\<close> under \<^verbatim>\<open>glamor_pixmap_private_key\<close>, which is the address of
  the binding record (\<open>None\<close> is NULL).
\<close>

record PixmapRec =
  width :: int
  height :: int
  depth :: int
  bitsPerPixel :: "8 word"
  refcnt :: int
  pixmap_private :: "nat option"

text \<open>
  Calls that leave this file are recorded, in order, in a trace. A call with an effect that
  the model needs (a pixmap created, a slot written) also changes the state.
\<close>

datatype event =
    Ev_ErrorF string
  | Ev_LogMessage string
  | Ev_glamor_gl_dispatch_init int
  | Ev_glamor_init_composite_shaders
  | Ev_glamor_init_pixmap_fbo
  | Ev_glamor_init_solid_shader
  | Ev_glamor_init_tile_shader
  | Ev_glamor_init_putimage_shaders
  | Ev_glamor_init_finish_access_shaders
  | Ev_glamor_pixmap_init
  | Ev_glamor_glyphs_fini
  | Ev_glamor_fini_composite_shaders
  | Ev_glamor_fini_pixmap_fbo
  | Ev_glamor_fini_solid_shader
  | Ev_glamor_fini_tile_shader
  | Ev_glamor_fini_putimage_shaders
  | Ev_glamor_fini_finish_access_shaders
  | Ev_glamor_pixmap_fini
  | Ev_glFlush
  | Ev_glFinish
  | Ev_glamor_fbo_expire "32 word"
  | Ev_call_CloseScreen fnptr
  | Ev_glamor_pixmap_detach_fbo nat
  | Ev_glamor_destroy_fbo fbo_ptr
  | Ev_glamor_create_fbo_from_tex int int int nat int
  | Ev_glamor_create_fbo int int int "32 word"
  | Ev_glamor_pixmap_attach_fbo nat fbo_ptr
  | Ev_fbCreatePixmap nat int int int "32 word"
  | Ev_fbDestroyPixmap nat
  | Ev_ModifyPixmapHeader nat int int int int int

datatype private_key = glamor_screen_private_key | glamor_pixmap_private_key

text \<open>
  The state that glamor.c works on: the screen, the pixmaps of the host (by address, with
  the next address the software allocator hands out), the binding records on the heap (by
  address, with the next address \<^verbatim>\<open>calloc\<close> hands out), the private keys registered with
  the host, the block and wakeup handlers registered with the host's event loop, the
  global \<^verbatim>\<open>glamor_debug_level\<close>, and the trace.
\<close>

record world =
  screen :: ScreenRec
  pixmaps :: "nat \<rightharpoonup> PixmapRec"
  next_pixmap :: nat
  pixmap_privs :: "nat \<rightharpoonup> glamor_pixmap_private"
  next_priv :: nat
  registered_keys :: "private_key list"
  block_handlers :: "(fnptr \<times> fnptr) list"
  glamor_debug_level :: int
  trace :: "event list"

definition emit :: "event \<Rightarrow> world \<Rightarrow> world" where
  "emit e W = W\<lparr>trace := trace W @ [e]\<rparr>"

text \<open>
  What glamor.c takes from glamor.h and glamor_priv.h without defining it are parameters:
  the two conditional-compilation switches, the flag constants, the usage constant, the
  enumerator \<^verbatim>\<open>GLAMOR_TEXTURE_ONLY\<close>, the version encoding macro and the depth check.
\<close>

record glamor_h =
  RENDER :: bool
  GLAMOR_GLES2 :: bool
  GLAMOR_VALID_FLAGS :: "32 word"
  GLAMOR_INVERTED_Y_AXIS :: "32 word"
  GLAMOR_USE_SCREEN :: "32 word"
  GLAMOR_USE_PICTURE_SCREEN :: "32 word"
  GLAMOR_CREATE_PIXMAP_CPU :: "32 word"
  GLAMOR_TEXTURE_ONLY :: int
  GLAMOR_GL_VERSION_ENCODE :: "int \<Rightarrow> int \<Rightarrow> int"
  glamor_check_fbo_depth :: "int \<Rightarrow> bool"

text \<open>
  What the host and the GPU answer during one call of \<^verbatim>\<open>glamor_init\<close>: whether
  \<^verbatim>\<open>calloc\<close> returns memory, whether each \<^verbatim>\<open>dixRegisterPrivateKey\<close> succeeds, the GL
  version, the extensions, \<^verbatim>\<open>GL_MAX_RENDERBUFFER_SIZE\<close>, the number that \<^verbatim>\<open>sscanf\<close> reads
  from the environment variable GLAMOR_DEBUG (\<open>None\<close>: unset or not a number), and whether
  \<^verbatim>\<open>RegisterBlockAndWakeupHandlers\<close> succeeds.
\<close>

record init_env =
  calloc_ok :: bool
  screen_key_ok :: bool
  pixmap_key_ok :: bool
  gl_version :: int
  gl_has_extension :: "string \<Rightarrow> bool"
  gl_max_renderbuffer_size :: int
  env_GLAMOR_DEBUG :: "int option"
  register_handlers_ok :: bool

section \<open>Initialization\<close>

text \<open>\<^verbatim>\<open>calloc(1, sizeof(*glamor_priv))\<close>: every field zero.\<close>

definition calloc_saved_procs :: saved_procs_rec where
  "calloc_saved_procs =
     \<lparr>close_screen = Fn_NULL, create_gc = Fn_NULL, create_pixmap = Fn_NULL,
      destroy_pixmap = Fn_NULL, get_spans = Fn_NULL, get_image = Fn_NULL,
      change_window_attributes = Fn_NULL, copy_window = Fn_NULL,
      bitmap_to_region = Fn_NULL, composite = Fn_NULL, trapezoids = Fn_NULL,
      glyphs = Fn_NULL, triangles = Fn_NULL, addtraps = Fn_NULL,
      unrealize_glyph = Fn_NULL, create_picture = Fn_NULL, destroy_picture = Fn_NULL\<rparr>"

definition calloc_screen_private :: glamor_screen_private where
  "calloc_screen_private =
     \<lparr>yInverted = 0, saved_procs = calloc_saved_procs, flags = 0,
      has_pack_invert = False, has_fbo_blit = False, max_fbo_size = 0, tick = 0,
      gl_flavor = GLAMOR_GL_DESKTOP, dispatch_initialized = False\<rparr>"

text \<open>
  \<^verbatim>\<open>dixRegisterPrivateKey\<close> of the host: on success the key is registered (once).
\<close>

definition dixRegisterPrivateKey :: "bool \<Rightarrow> private_key \<Rightarrow> world \<Rightarrow> bool \<times> world" where
  "dixRegisterPrivateKey ok k W =
     (if ok then (True, W\<lparr>registered_keys := List.insert k (registered_keys W)\<rparr>)
      else (False, W))"

text \<open>\<^verbatim>\<open>glamor_set_debug_level(&glamor_debug_level)\<close>.\<close>

definition glamor_set_debug_level :: "init_env \<Rightarrow> world \<Rightarrow> world" where
  "glamor_set_debug_level E W =
     (case env_GLAMOR_DEBUG E of
        Some n \<Rightarrow> W\<lparr>glamor_debug_level := n\<rparr>
      | None \<Rightarrow> W\<lparr>glamor_debug_level := 0\<rparr>)"

text \<open>
  The label \<^verbatim>\<open>fail:\<close> of \<^verbatim>\<open>glamor_init\<close>: the context record is freed and the screen's
  entry is set to NULL.
\<close>

definition init_fail :: "world \<Rightarrow> (bool \<times> world) option" where
  "init_fail W = Some (False, W\<lparr>screen := (screen W)\<lparr>screen_private := None\<rparr>\<rparr>)"

text \<open>
  The block of \<^verbatim>\<open>glamor_init\<close> under \<^verbatim>\<open>flags & GLAMOR_USE_SCREEN\<close>, after the handlers are
  registered: each slot is saved, then overwritten.
\<close>

definition install_screen_procs ::
  "saved_procs_rec \<Rightarrow> ScreenRec \<Rightarrow> saved_procs_rec \<times> ScreenRec" where
  "install_screen_procs sp S =
     (sp\<lparr>close_screen := CloseScreen S, create_gc := CreateGC S,
         create_pixmap := CreatePixmap S, destroy_pixmap := DestroyPixmap S,
         get_spans := GetSpans S, get_image := GetImage S,
         change_window_attributes := ChangeWindowAttributes S,
         copy_window := CopyWindow S, bitmap_to_region := BitmapToRegion S\<rparr>,
      S\<lparr>CloseScreen := Fn_glamor_close_screen, CreateGC := Fn_glamor_create_gc,
        CreatePixmap := Fn_glamor_create_pixmap,
        DestroyPixmap := Fn_glamor_destroy_pixmap, GetSpans := Fn_glamor_get_spans,
        GetImage := Fn_glamor_get_image,
        ChangeWindowAttributes := Fn_glamor_change_window_attributes,
        CopyWindow := Fn_glamor_copy_window,
        BitmapToRegion := Fn_glamor_bitmap_to_region\<rparr>)"

text \<open>The block under \<^verbatim>\<open>flags & GLAMOR_USE_PICTURE_SCREEN\<close>.\<close>

definition install_picture_procs ::
  "saved_procs_rec \<Rightarrow> PictureScreenRec \<Rightarrow> saved_procs_rec \<times> PictureScreenRec" where
  "install_picture_procs sp ps =
     (sp\<lparr>composite := Composite ps, trapezoids := Trapezoids ps, glyphs := Glyphs ps,
         triangles := Triangles ps, addtraps := AddTraps ps,
         unrealize_glyph := UnrealizeGlyph ps\<rparr>,
      ps\<lparr>Composite := Fn_glamor_composite, Trapezoids := Fn_glamor_trapezoids,
         Glyphs := Fn_glamor_glyphs, Triangles := Fn_glamor_triangles,
         AddTraps := Fn_glamor_add_traps,
         UnrealizeGlyph := Fn_glamor_glyph_unrealize\<rparr>)"

text \<open>The two assignments after that block, which no flag guards.\<close>

definition install_picture_create_destroy ::
  "saved_procs_rec \<Rightarrow> PictureScreenRec \<Rightarrow> saved_procs_rec \<times> PictureScreenRec" where
  "install_picture_create_destroy sp ps =
     (sp\<lparr>create_picture := CreatePicture ps, destroy_picture := DestroyPicture ps\<rparr>,
      ps\<lparr>CreatePicture := Fn_glamor_create_picture,
         DestroyPicture := Fn_glamor_destroy_picture\<rparr>)"

text \<open>
  The part of \<^verbatim>\<open>glamor_init\<close> under \<^verbatim>\<open>#ifdef RENDER\<close> that installs the picture handlers
  and builds the composite shaders. \<open>ps\<close> is dereferenced without a check: with no picture
  screen the behaviour is undefined (\<open>None\<close>).
\<close>

definition init_render ::
  "glamor_h \<Rightarrow> 32 word \<Rightarrow> glamor_screen_private \<Rightarrow> world \<Rightarrow>
   (glamor_screen_private \<times> world) option" where
  "init_render H flgs P W =
     (if \<not> RENDER H then Some (P, W)
      else case picture_screen (screen W) of
        None \<Rightarrow> None
      | Some ps \<Rightarrow>
          let (sp1, ps1) =
                (if flgs AND GLAMOR_USE_PICTURE_SCREEN H \<noteq> 0
                 then install_picture_procs (saved_procs P) ps
                 else (saved_procs P, ps));
              (sp2, ps2) = install_picture_create_destroy sp1 ps1
          in Some (P\<lparr>saved_procs := sp2\<rparr>,
                   emit Ev_glamor_init_composite_shaders
                     (W\<lparr>screen := (screen W)\<lparr>picture_screen := Some ps2\<rparr>\<rparr>)))"

text \<open>
  The end of \<^verbatim>\<open>glamor_init\<close>: the remaining initializers, flavor and flags; the context
  record is the one the screen's entry points to.
\<close>

definition init_finish ::
  "glamor_h \<Rightarrow> 32 word \<Rightarrow> glamor_screen_private \<Rightarrow> world \<Rightarrow> (bool \<times> world) option" where
  "init_finish H flgs P W =
     (let W1 = emit Ev_glamor_pixmap_init
                 (emit Ev_glamor_init_finish_access_shaders
                   (emit Ev_glamor_init_putimage_shaders
                     (emit Ev_glamor_init_tile_shader
                       (emit Ev_glamor_init_solid_shader
                         (emit Ev_glamor_init_pixmap_fbo W)))));
          P1 = P\<lparr>gl_flavor := (if GLAMOR_GLES2 H then GLAMOR_GL_ES2 else GLAMOR_GL_DESKTOP),
                 flags := flgs\<rparr>
      in Some (True, W1\<lparr>screen := (screen W1)\<lparr>screen_private := Some P1\<rparr>\<rparr>))"

text \<open>
  The part of \<^verbatim>\<open>glamor_init\<close> from \<^verbatim>\<open>if (flags & GLAMOR_USE_SCREEN)\<close> on.
\<close>

definition init_install ::
  "glamor_h \<Rightarrow> init_env \<Rightarrow> 32 word \<Rightarrow> glamor_screen_private \<Rightarrow> world \<Rightarrow>
   (bool \<times> world) option" where
  "init_install H E flgs P W =
     (if flgs AND GLAMOR_USE_SCREEN H \<noteq> 0 then
        (if \<not> register_handlers_ok E then init_fail W
         else
           let W1 = W\<lparr>block_handlers := block_handlers W @
                        [(Fn_u_glamor_block_handler, Fn_u_glamor_wakeup_handler)]\<rparr>;
               (sp, S) = install_screen_procs (saved_procs P) (screen W1)
           in case init_render H flgs (P\<lparr>saved_procs := sp\<rparr>) (W1\<lparr>screen := S\<rparr>) of
                None \<Rightarrow> None
              | Some (P2, W2) \<Rightarrow> init_finish H flgs P2 W2)
      else
        (case init_render H flgs P W of
           None \<Rightarrow> None
         | Some (P2, W2) \<Rightarrow> init_finish H flgs P2 W2))"

text \<open>
  \<^verbatim>\<open>glamor_init(screen, flags)\<close>. The result is \<open>None\<close> when the behaviour is undefined
  (NULL picture screen dereferenced), otherwise the returned \<^verbatim>\<open>Bool\<close> and the new state.
\<close>

definition glamor_init ::
  "glamor_h \<Rightarrow> init_env \<Rightarrow> 32 word \<Rightarrow> world \<Rightarrow> (bool \<times> world) option" where
  "glamor_init H E flgs W =
     (if flgs AND NOT (GLAMOR_VALID_FLAGS H) \<noteq> 0 then
        Some (False, emit (Ev_ErrorF ''glamor_init: Invalid flags'') W)
      else if \<not> calloc_ok E then Some (False, W)
      else
        let P0 = calloc_screen_private
                   \<lparr>yInverted := (if flgs AND GLAMOR_INVERTED_Y_AXIS H \<noteq> 0 then 1 else 0)\<rparr>;
            (ok1, W1) = dixRegisterPrivateKey (screen_key_ok E) glamor_screen_private_key W
        in if \<not> ok1 then
             init_fail (emit (Ev_LogMessage ''Failed to allocate screen private'') W1)
           else
             let W2 = W1\<lparr>screen := (screen W1)\<lparr>screen_private := Some P0\<rparr>\<rparr>;
                 (ok2, W3) =
                   dixRegisterPrivateKey (pixmap_key_ok E) glamor_pixmap_private_key W2
             in if \<not> ok2 then
                  init_fail (emit (Ev_LogMessage ''Failed to allocate pixmap private'') W3)
                else if \<not> GLAMOR_GLES2 H \<and>
                        gl_version E < GLAMOR_GL_VERSION_ENCODE H 1 3 then
                  init_fail (emit (Ev_ErrorF ''Require OpenGL version 1.3 or latter.'') W3)
                else if GLAMOR_GLES2 H \<and>
                        gl_version E < GLAMOR_GL_VERSION_ENCODE H 2 0 then
                  init_fail (emit (Ev_ErrorF ''Require Open GLES2.0 or latter.'') W3)
                else
                  let W4 = emit (Ev_glamor_gl_dispatch_init (gl_version E)) W3;
                      P1 = P0\<lparr>dispatch_initialized := True\<rparr>
                  in if GLAMOR_GLES2 H \<and>
                        \<not> gl_has_extension E ''GL_EXT_texture_format_BGRA8888'' then
                       init_fail
                         (emit (Ev_ErrorF ''GL_EXT_texture_format_BGRA8888 required'') W4)
                     else
                       let P2 = P1\<lparr>has_pack_invert :=
                                     gl_has_extension E ''GL_MESA_pack_invert'',
                                   has_fbo_blit :=
                                     gl_has_extension E ''GL_EXT_framebuffer_blit'',
                                   max_fbo_size := gl_max_renderbuffer_size E\<rparr>;
                           W5 = glamor_set_debug_level E W4
                       in init_install H E flgs P2 W5)"

section \<open>Teardown\<close>

text \<open>
  The assignments of \<^verbatim>\<open>glamor_close_screen\<close> under \<^verbatim>\<open>flags & GLAMOR_USE_SCREEN\<close>.
\<close>

definition restore_screen_procs :: "saved_procs_rec \<Rightarrow> ScreenRec \<Rightarrow> ScreenRec" where
  "restore_screen_procs sp S =
     S\<lparr>CloseScreen := close_screen sp, CreateGC := create_gc sp,
       CreatePixmap := create_pixmap sp, DestroyPixmap := destroy_pixmap sp,
       GetSpans := get_spans sp,
       ChangeWindowAttributes := change_window_attributes sp,
       CopyWindow := copy_window sp, BitmapToRegion := bitmap_to_region sp\<rparr>"

text \<open>
  The assignments under \<^verbatim>\<open>ps && (flags & GLAMOR_USE_PICTURE_SCREEN)\<close>.
\<close>

definition restore_picture_procs ::
  "saved_procs_rec \<Rightarrow> PictureScreenRec \<Rightarrow> PictureScreenRec" where
  "restore_picture_procs sp ps =
     ps\<lparr>Composite := composite sp, Trapezoids := trapezoids sp, Glyphs := glyphs sp,
        Triangles := triangles sp, CreatePicture := create_picture sp\<rparr>"

text \<open>
  \<^verbatim>\<open>glamor_release_screen_priv(screen)\<close>: the finalizers, then the context record is freed
  and the screen's entry set to NULL.
\<close>

definition glamor_release_screen_priv :: "glamor_h \<Rightarrow> world \<Rightarrow> world" where
  "glamor_release_screen_priv H W =
     (let W0 = (if RENDER H then emit Ev_glamor_fini_composite_shaders W else W);
          W1 = emit Ev_glamor_pixmap_fini
                 (emit Ev_glamor_fini_finish_access_shaders
                   (emit Ev_glamor_fini_putimage_shaders
                     (emit Ev_glamor_fini_tile_shader
                       (emit Ev_glamor_fini_solid_shader
                         (emit Ev_glamor_fini_pixmap_fbo W0)))))
      in W1\<lparr>screen := (screen W1)\<lparr>screen_private := None\<rparr>\<rparr>)"

text \<open>
  The call \<^verbatim>\<open>screen->CloseScreen(idx, screen)\<close> that ends \<^verbatim>\<open>glamor_close_screen\<close>. A
  handler of the host is called and answers \<open>host_close n\<close>. Were the slot to hold
  \<^verbatim>\<open>glamor_close_screen\<close> itself, the nested call would read \<^verbatim>\<open>glamor_priv->flags\<close> through
  the entry that \<^verbatim>\<open>glamor_release_screen_priv\<close> has just set to NULL: undefined. A NULL
  slot, or a function of another type, is undefined as well.
\<close>

definition call_CloseScreen :: "(nat \<Rightarrow> bool) \<Rightarrow> world \<Rightarrow> (bool \<times> world) option" where
  "call_CloseScreen host_close W =
     (case CloseScreen (screen W) of
        Fn_host n \<Rightarrow> Some (host_close n, emit (Ev_call_CloseScreen (Fn_host n)) W)
      | _ \<Rightarrow> None)"

text \<open>
  \<^verbatim>\<open>glamor_close_screen(idx, screen)\<close>. With no context record on the screen
  \<^verbatim>\<open>glamor_priv->flags\<close> dereferences NULL (\<open>None\<close>).
\<close>

definition glamor_close_screen ::
  "glamor_h \<Rightarrow> (nat \<Rightarrow> bool) \<Rightarrow> world \<Rightarrow> (bool \<times> world) option" where
  "glamor_close_screen H host_close W =
     (case screen_private (screen W) of
        None \<Rightarrow> None
      | Some P \<Rightarrow>
          let flgs = flags P;
              W1 = emit Ev_glamor_glyphs_fini W;
              S1 = (if flgs AND GLAMOR_USE_SCREEN H \<noteq> 0
                    then restore_screen_procs (saved_procs P) (screen W1)
                    else screen W1);
              S2 = (if RENDER H then
                      (case picture_screen S1 of
                         Some ps \<Rightarrow>
                           if flgs AND GLAMOR_USE_PICTURE_SCREEN H \<noteq> 0
                           then S1\<lparr>picture_screen :=
                                     Some (restore_picture_procs (saved_procs P) ps)\<rparr>
                           else S1
                       | None \<Rightarrow> S1)
                    else S1);
              W2 = glamor_release_screen_priv H (W1\<lparr>screen := S2\<rparr>)
          in if flgs AND GLAMOR_USE_SCREEN H \<noteq> 0
             then call_CloseScreen host_close W2
             else Some (True, W2))"

text \<open>\<^verbatim>\<open>glamor_fini(screen)\<close>: the body is empty.\<close>

definition glamor_fini :: "world \<Rightarrow> world" where
  "glamor_fini W = W"

section \<open>Per-frame handlers\<close>

text \<open>
  \<^verbatim>\<open>glamor_block_handler(screen)\<close>. With no context record \<^verbatim>\<open>glamor_priv->tick++\<close>
  dereferences NULL; with a context record whose dispatch table was never filled the call
  through \<^verbatim>\<open>dispatch->glFlush\<close> is a call through a null pointer (\<open>None\<close>).
\<close>

definition glamor_block_handler :: "world \<Rightarrow> world option" where
  "glamor_block_handler W =
     (case screen_private (screen W) of
        None \<Rightarrow> None
      | Some P \<Rightarrow>
          let P1 = P\<lparr>tick := tick P + 1\<rparr>;
              W1 = W\<lparr>screen := (screen W)\<lparr>screen_private := Some P1\<rparr>\<rparr>
          in if \<not> dispatch_initialized P1 then None
             else Some (emit (Ev_glamor_fbo_expire (tick P1))
                         (emit Ev_glFinish (emit Ev_glFlush W1))))"

text \<open>
  \<^verbatim>\<open>_glamor_block_handler(data, timeout, last_select_mask)\<close>. \<open>data\<close> is the address of
  the dispatch table inside the context record, as \<^verbatim>\<open>glamor_init\<close> registered it; it is
  valid while that record is.
\<close>

definition u_glamor_block_handler :: "world \<Rightarrow> world option" where
  "u_glamor_block_handler W =
     (case screen_private (screen W) of
        None \<Rightarrow> None
      | Some P \<Rightarrow>
          if \<not> dispatch_initialized P then None
          else Some (emit Ev_glFinish (emit Ev_glFlush W)))"

text \<open>\<^verbatim>\<open>_glamor_wakeup_handler\<close>: the body is empty.\<close>

definition u_glamor_wakeup_handler :: "world \<Rightarrow> world" where
  "u_glamor_wakeup_handler W = W"

text \<open>
  The host's event loop calls a registered block handler through its pointer. Of the
  functions of this file only \<^verbatim>\<open>_glamor_block_handler\<close> has the type of a block handler;
  the handlers of the host itself are outside the model.
\<close>

definition call_block_handler :: "fnptr \<Rightarrow> world \<Rightarrow> world option" where
  "call_block_handler f W =
     (case f of Fn_u_glamor_block_handler \<Rightarrow> u_glamor_block_handler W | _ \<Rightarrow> None)"

section \<open>Pixmaps\<close>

text \<open>
  Modelled from the spec: the macro \<^verbatim>\<open>glamor_check_fbo_size\<close>, which glamor.c uses and
  does not define. The spec gives the feasibility condition as
  \<^verbatim>\<open>width,height <= max dimension\<close>, the maximum being the one queried at initialization.
\<close>

definition glamor_check_fbo_size :: "glamor_screen_private \<Rightarrow> int \<Rightarrow> int \<Rightarrow> bool" where
  "glamor_check_fbo_size P w h = (w \<le> max_fbo_size P \<and> h \<le> max_fbo_size P)"

text \<open>
  What the host and the render-target pool answer during one call of
  \<^verbatim>\<open>glamor_create_pixmap\<close>: the host's \<^verbatim>\<open>BitsPerPixel\<close> of a depth, whether
  \<^verbatim>\<open>calloc\<close> returns memory for the binding record, and what \<^verbatim>\<open>glamor_create_fbo\<close>
  returns (\<open>None\<close> is NULL).
\<close>

record pixmap_env =
  BitsPerPixel :: "int \<Rightarrow> 8 word"
  priv_calloc_ok :: bool
  create_fbo_result :: "fbo_ptr option"

text \<open>
  The software backing-store collaborator, by its contract in the spec
  (\<^verbatim>\<open>create(screen, w, h, depth, usage) -> Surface\<close>): \<^verbatim>\<open>fbCreatePixmap\<close> returns a new
  pixmap of the size asked for, with reference count 1 and no binding record.
\<close>

definition fbCreatePixmap ::
  "pixmap_env \<Rightarrow> world \<Rightarrow> int \<Rightarrow> int \<Rightarrow> int \<Rightarrow> 32 word \<Rightarrow> nat \<times> world" where
  "fbCreatePixmap E W w h d u =
     (let p = next_pixmap W;
          pm = \<lparr>width = w, height = h, depth = d, bitsPerPixel = BitsPerPixel E d,
                refcnt = 1, pixmap_private = None\<rparr>
      in (p, emit (Ev_fbCreatePixmap p w h d u)
               (W\<lparr>pixmaps := (pixmaps W)(p \<mapsto> pm), next_pixmap := Suc p\<rparr>)))"

text \<open>
  \<^verbatim>\<open>fbDestroyPixmap\<close> of the host: the reference count is decremented and the pixmap freed
  when it reaches zero. A pointer to no pixmap is undefined.
\<close>

definition fbDestroyPixmap :: "nat \<Rightarrow> world \<Rightarrow> world option" where
  "fbDestroyPixmap p W =
     (case pixmaps W p of
        None \<Rightarrow> None
      | Some pm \<Rightarrow>
          Some (emit (Ev_fbDestroyPixmap p)
                 (if refcnt pm - 1 \<noteq> 0
                  then W\<lparr>pixmaps := (pixmaps W)(p \<mapsto> pm\<lparr>refcnt := refcnt pm - 1\<rparr>)\<rparr>
                  else W\<lparr>pixmaps := (pixmaps W)(p := None)\<rparr>)))"

text \<open>
  \<^verbatim>\<open>calloc(1, sizeof(*pixmap_priv))\<close>: with memory, a new binding record at the next
  address, every field zero; without, NULL.
\<close>

definition calloc_pixmap_private :: "bool \<Rightarrow> world \<Rightarrow> nat option \<times> world" where
  "calloc_pixmap_private ok W =
     (if ok then
        (Some (next_priv W),
         W\<lparr>pixmap_privs := (pixmap_privs W)
                (next_priv W \<mapsto> \<lparr>container = None, pixmap_type = 0, fbo = None\<rparr>),
           next_priv := Suc (next_priv W)\<rparr>)
      else (None, W))"

text \<open>
  \<^verbatim>\<open>free(pixmap_priv)\<close>: the binding record at that address is released. An address
  that holds no binding record is undefined (\<open>None\<close>).
\<close>

definition free_pixmap_private :: "nat \<Rightarrow> world \<Rightarrow> world option" where
  "free_pixmap_private a W =
     (case pixmap_privs W a of
        None \<Rightarrow> None
      | Some b \<Rightarrow> Some (W\<lparr>pixmap_privs := (pixmap_privs W)(a := None)\<rparr>))"

text \<open>
  \<^verbatim>\<open>dixSetPrivate(&pixmap->devPrivates, glamor_pixmap_private_key, pixmap_priv)\<close>.
\<close>

definition dixSetPrivate_pixmap :: "nat \<Rightarrow> nat option \<Rightarrow> world \<Rightarrow> world" where
  "dixSetPrivate_pixmap p a W =
     (case pixmaps W p of
        None \<Rightarrow> W
      | Some pm \<Rightarrow> W\<lparr>pixmaps := (pixmaps W)(p \<mapsto> pm\<lparr>pixmap_private := a\<rparr>)\<rparr>)"

text \<open>
  The three assignments \<^verbatim>\<open>pixmap_priv->container = pixmap\<close>,
  \<^verbatim>\<open>pixmap_priv->glamor_priv = glamor_priv\<close> and \<^verbatim>\<open>pixmap_priv->type = type\<close> (with
  \<^verbatim>\<open>type = GLAMOR_TEXTURE_ONLY\<close>) through the pointer \<open>a\<close>. An address that holds no
  binding record is undefined (\<open>None\<close>).
\<close>

definition init_pixmap_private :: "glamor_h \<Rightarrow> nat \<Rightarrow> nat \<Rightarrow> world \<Rightarrow> world option" where
  "init_pixmap_private H a pixmap W =
     (case pixmap_privs W a of
        None \<Rightarrow> None
      | Some b \<Rightarrow>
          Some (W\<lparr>pixmap_privs := (pixmap_privs W)
                  (a \<mapsto> b\<lparr>container := Some pixmap,
                           pixmap_type := GLAMOR_TEXTURE_ONLY H\<rparr>)\<rparr>))"

text \<open>
  Modelled from the spec: \<^verbatim>\<open>glamor_pixmap_detach_fbo\<close>, which glamor.c calls and does
  not define. The spec's \<^verbatim>\<open>detach(surface) -> RenderTarget|None\<close>: the binding record
  (at address \<open>a\<close>) gives up the render target it owns, which is returned; the transfer
  clears the record's reference.
\<close>

definition glamor_pixmap_detach_fbo :: "nat \<Rightarrow> world \<Rightarrow> fbo_ptr option \<times> world" where
  "glamor_pixmap_detach_fbo a W =
     (let W1 = emit (Ev_glamor_pixmap_detach_fbo a) W
      in case pixmap_privs W a of
           None \<Rightarrow> (None, W1)
         | Some b \<Rightarrow>
             (fbo b, W1\<lparr>pixmap_privs := (pixmap_privs W)(a \<mapsto> b\<lparr>fbo := None\<rparr>)\<rparr>))"

text \<open>
  Modelled from the spec: \<^verbatim>\<open>glamor_pixmap_attach_fbo\<close>, which glamor.c calls and does
  not define. The spec's \<^verbatim>\<open>attach(surface, target)\<close> on a binding record that owns nothing:
  the binding record of the pixmap owns the target afterwards. Both callers in this file
  reach it only with a binding record whose render target is NULL.
\<close>

definition glamor_pixmap_attach_fbo :: "nat \<Rightarrow> fbo_ptr \<Rightarrow> world \<Rightarrow> world" where
  "glamor_pixmap_attach_fbo p f W =
     (let W1 = emit (Ev_glamor_pixmap_attach_fbo p f) W
      in case pixmaps W p of
           None \<Rightarrow> W1
         | Some pm \<Rightarrow>
             (case pixmap_private pm of
                None \<Rightarrow> W1
              | Some a \<Rightarrow>
                  (case pixmap_privs W a of
                     None \<Rightarrow> W1
                   | Some b \<Rightarrow>
                       W1\<lparr>pixmap_privs :=
                            (pixmap_privs W)(a \<mapsto> b\<lparr>fbo := Some f\<rparr>)\<rparr>)))"

text \<open>
  \<^verbatim>\<open>glamor_destroy_fbo(fbo)\<close> disposes of a detached render target (into the pool or for
  good); the pool is outside this file, the call is recorded.
\<close>

definition glamor_destroy_fbo :: "fbo_ptr \<Rightarrow> world \<Rightarrow> world" where
  "glamor_destroy_fbo f W = emit (Ev_glamor_destroy_fbo f) W"

text \<open>
  \<^verbatim>\<open>glamor_set_pixmap_texture(pixmap, tex)\<close>; \<open>r\<close> is what
  \<^verbatim>\<open>glamor_create_fbo_from_tex\<close> returns (\<open>None\<close> is NULL). \<open>a\<close> is the pointer
  \<^verbatim>\<open>pixmap_priv\<close> that \<^verbatim>\<open>glamor_get_pixmap_private\<close> returns. A pixmap without binding
  record, or with a pointer to no record, makes \<^verbatim>\<open>pixmap_priv->fbo\<close> undefined (\<open>None\<close>).
\<close>

definition glamor_set_pixmap_texture ::
  "fbo_ptr option \<Rightarrow> nat \<Rightarrow> nat \<Rightarrow> world \<Rightarrow> world option" where
  "glamor_set_pixmap_texture r pixmap tex W =
     (case pixmaps W pixmap of
        None \<Rightarrow> None
      | Some pm \<Rightarrow>
          (case pixmap_private pm of
             None \<Rightarrow> None
           | Some a \<Rightarrow>
               (case pixmap_privs W a of
                  None \<Rightarrow> None
                | Some pixmap_priv \<Rightarrow>
                    (let W1 = (if fbo pixmap_priv \<noteq> None then
                                 (case glamor_pixmap_detach_fbo a W of
                                    (Some f, W') \<Rightarrow> glamor_destroy_fbo f W'
                                  | (None, W') \<Rightarrow> W')
                               else W);
                         W2 = emit (Ev_glamor_create_fbo_from_tex
                                      (width pm) (height pm) (depth pm) tex 0) W1
                     in (case r of
                           None \<Rightarrow>
                             Some (emit (Ev_ErrorF ''XXX fail to create fbo.'') W2)
                         | Some f \<Rightarrow> Some (glamor_pixmap_attach_fbo pixmap f W2))))))"

text \<open>
  The C expression \<^verbatim>\<open>(((w * bitsPerPixel + 7) / 8) + 3) & ~3\<close> on \<^verbatim>\<open>int\<close>: the division
  truncates towards zero, and a product or sum outside the range of \<^verbatim>\<open>int\<close> is
  undefined (\<open>None\<close>).
\<close>

definition in_int_range :: "int \<Rightarrow> bool" where
  "in_int_range x = (- 2147483648 \<le> x \<and> x \<le> 2147483647)"

definition pixmap_pitch :: "int \<Rightarrow> 8 word \<Rightarrow> int option" where
  "pixmap_pitch w bpp =
     (if in_int_range (w * uint bpp) \<and> in_int_range (w * uint bpp + 7)
         \<and> in_int_range ((w * uint bpp + 7) sdiv 8 + 3)
      then Some (((w * uint bpp + 7) sdiv 8 + 3) AND NOT 3)
      else None)"

text \<open>
  The host's \<^verbatim>\<open>screen->ModifyPixmapHeader(pixmap, w, h, depth, bpp, devKind, data)\<close>, by
  its contract (\<^verbatim>\<open>modify_header(surface, w, h, pitch, data)\<close> in the spec): a header
  argument that is positive replaces the field, the pitch goes to the pixel storage of the
  host (recorded with the call); the binding record is not touched.
\<close>

definition ModifyPixmapHeader ::
  "nat \<Rightarrow> int \<Rightarrow> int \<Rightarrow> int \<Rightarrow> int \<Rightarrow> int \<Rightarrow> world \<Rightarrow> world" where
  "ModifyPixmapHeader p w h d bpp dk W =
     (let W1 = emit (Ev_ModifyPixmapHeader p w h d bpp dk) W
      in case pixmaps W p of
           None \<Rightarrow> W1
         | Some pm \<Rightarrow>
             W1\<lparr>pixmaps := (pixmaps W)(p \<mapsto>
                  pm\<lparr>width := (if 0 < w then w else width pm),
                     height := (if 0 < h then h else height pm),
                     depth := (if 0 < d then d else depth pm),
                     bitsPerPixel :=
                       (if 0 < bpp then word_of_int bpp else bitsPerPixel pm)\<rparr>)\<rparr>)"

text \<open>
  The tail of \<^verbatim>\<open>glamor_create_pixmap\<close> once the binding record (at \<open>pixmap_priv\<close>) is set
  on the placeholder and the size is not empty: the render target is requested; without
  one the placeholder is destroyed, the binding record freed and a software pixmap
  returned; with one it is attached and the header set.
\<close>

definition create_pixmap_bind ::
  "pixmap_env \<Rightarrow> nat \<Rightarrow> nat \<Rightarrow> world \<Rightarrow> int \<Rightarrow> int \<Rightarrow> int \<Rightarrow> 32 word \<Rightarrow>
   (nat option \<times> world) option" where
  "create_pixmap_bind E pixmap pixmap_priv W w h d u =
     (let W1 = emit (Ev_glamor_create_fbo w h d u) W
      in case create_fbo_result E of
           None \<Rightarrow>
             (case fbDestroyPixmap pixmap W1 of
                None \<Rightarrow> None
              | Some W2 \<Rightarrow>
                  (case free_pixmap_private pixmap_priv W2 of
                     None \<Rightarrow> None
                   | Some W3 \<Rightarrow>
                       (case fbCreatePixmap E W3 w h d u of
                          (p, W4) \<Rightarrow> Some (Some p, W4))))
         | Some f \<Rightarrow>
             (let W2 = glamor_pixmap_attach_fbo pixmap f W1
              in (case pixmaps W2 pixmap of
                    None \<Rightarrow> None
                  | Some pm \<Rightarrow>
                      (case pixmap_pitch w (bitsPerPixel pm) of
                         None \<Rightarrow> None
                       | Some pitch \<Rightarrow>
                           Some (Some pixmap,
                                 ModifyPixmapHeader pixmap w h 0 0 pitch W2)))))"

text \<open>
  \<^verbatim>\<open>glamor_create_pixmap(screen, w, h, depth, usage)\<close>. The result is \<open>None\<close> when the
  behaviour is undefined, otherwise the returned pointer (\<open>None\<close> is \<^verbatim>\<open>NullPixmap\<close>) and
  the new state. With no context record on the screen the size check dereferences NULL.
\<close>

definition glamor_create_pixmap ::
  "glamor_h \<Rightarrow> pixmap_env \<Rightarrow> world \<Rightarrow> int \<Rightarrow> int \<Rightarrow> int \<Rightarrow> 32 word \<Rightarrow>
   (nat option \<times> world) option" where
  "glamor_create_pixmap H E W w h d u =
     (if w > 32767 \<or> h > 32767 then Some (None, W)
      else case screen_private (screen W) of
        None \<Rightarrow> None
      | Some glamor_priv \<Rightarrow>
          if \<not> glamor_check_fbo_size glamor_priv w h
             \<or> \<not> glamor_check_fbo_depth H d
             \<or> u = GLAMOR_CREATE_PIXMAP_CPU H
          then (case fbCreatePixmap E W w h d u of (p, W1) \<Rightarrow> Some (Some p, W1))
          else
            (case fbCreatePixmap E W 0 0 d u of
               (pixmap, W1) \<Rightarrow>
                 (case calloc_pixmap_private (priv_calloc_ok E) W1 of
                    (None, W2) \<Rightarrow>
                      (case fbCreatePixmap E W2 w h d u of (p, W3) \<Rightarrow> Some (Some p, W3))
                  | (Some pixmap_priv, W2) \<Rightarrow>
                      (case init_pixmap_private H pixmap_priv pixmap
                              (dixSetPrivate_pixmap pixmap (Some pixmap_priv) W2) of
                         None \<Rightarrow> None
                       | Some W3 \<Rightarrow>
                           if w = 0 \<or> h = 0 then Some (Some pixmap, W3)
                           else create_pixmap_bind E pixmap pixmap_priv W3 w h d u))))"

section \<open>A concrete configuration\<close>

text \<open>
  One instance of the parameters, for evaluating the functions on concrete inputs: the
  three recognized flags on three bits, desktop GL with RENDER, and a host whose screen
  holds its own handlers in every slot.
\<close>

definition example_h :: glamor_h where
  "example_h =
     \<lparr>RENDER = True, GLAMOR_GLES2 = False, GLAMOR_VALID_FLAGS = 7,
      GLAMOR_INVERTED_Y_AXIS = 1, GLAMOR_USE_SCREEN = 2, GLAMOR_USE_PICTURE_SCREEN = 4,
      GLAMOR_CREATE_PIXMAP_CPU = 256, GLAMOR_TEXTURE_ONLY = 4,
      GLAMOR_GL_VERSION_ENCODE = (\<lambda>major minor. major * 10 + minor),
      glamor_check_fbo_depth = (\<lambda>d. d = 8 \<or> d = 15 \<or> d = 16 \<or> d = 24 \<or> d = 30 \<or> d = 32)\<rparr>"

definition example_env :: init_env where
  "example_env =
     \<lparr>calloc_ok = True, screen_key_ok = True, pixmap_key_ok = True, gl_version = 21,
      gl_has_extension = (\<lambda>s. True), gl_max_renderbuffer_size = 4096,
      env_GLAMOR_DEBUG = None, register_handlers_ok = True\<rparr>"

definition example_picture_screen :: PictureScreenRec where
  "example_picture_screen =
     \<lparr>Composite = Fn_host 10, Trapezoids = Fn_host 11, Glyphs = Fn_host 12,
      Triangles = Fn_host 13, AddTraps = Fn_host 14, UnrealizeGlyph = Fn_host 15,
      CreatePicture = Fn_host 16, DestroyPicture = Fn_host 17\<rparr>"

definition example_screen :: ScreenRec where
  "example_screen =
     \<lparr>CloseScreen = Fn_host 1, CreateGC = Fn_host 2, CreatePixmap = Fn_host 3,
      DestroyPixmap = Fn_host 4, GetSpans = Fn_host 5, GetImage = Fn_host 6,
      ChangeWindowAttributes = Fn_host 7, CopyWindow = Fn_host 8,
      BitmapToRegion = Fn_host 9, picture_screen = Some example_picture_screen,
      screen_private = None\<rparr>"

definition example_world :: world where
  "example_world =
     \<lparr>screen = example_screen, pixmaps = Map.empty, next_pixmap = 0,
      pixmap_privs = Map.empty, next_priv = 0, registered_keys = [], block_handlers = [], glamor_debug_level = 0, trace = []\<rparr>"

text \<open>
  The state after a successful initialization of that screen with the screen and picture
  selectors, and the context record it holds.
\<close>

definition example_active_world :: world where
  "example_active_world =
     (case glamor_init example_h example_env 6 example_world of
        Some (r, W) \<Rightarrow> W
      | None \<Rightarrow> example_world)"

definition example_saved_procs :: saved_procs_rec where
  "example_saved_procs =
     \<lparr>close_screen = Fn_host 1, create_gc = Fn_host 2, create_pixmap = Fn_host 3,
      destroy_pixmap = Fn_host 4, get_spans = Fn_host 5, get_image = Fn_host 6,
      change_window_attributes = Fn_host 7, copy_window = Fn_host 8,
      bitmap_to_region = Fn_host 9, composite = Fn_host 10, trapezoids = Fn_host 11,
      glyphs = Fn_host 12, triangles = Fn_host 13, addtraps = Fn_host 14,
      unrealize_glyph = Fn_host 15, create_picture = Fn_host 16,
      destroy_picture = Fn_host 17\<rparr>"

definition example_priv :: glamor_screen_private where
  "example_priv =
     \<lparr>yInverted = 0, saved_procs = example_saved_procs, flags = 6,
      has_pack_invert = True, has_fbo_blit = True, max_fbo_size = 4096, tick = 0,
      gl_flavor = GLAMOR_GL_DESKTOP, dispatch_initialized = True\<rparr>"

definition example_init_trace :: "event list" where
  "example_init_trace =
     [Ev_glamor_gl_dispatch_init 21, Ev_glamor_init_composite_shaders,
      Ev_glamor_init_pixmap_fbo, Ev_glamor_init_solid_shader, Ev_glamor_init_tile_shader,
      Ev_glamor_init_putimage_shaders, Ev_glamor_init_finish_access_shaders,
      Ev_glamor_pixmap_init]"

text \<open>
  A host with 32 bits per pixel above depth 16, and a pool that hands out render
  target 7; and the state after a 64 by 64 pixmap of depth 24 was created there: the
  pixmap at address 0 and its binding record at address 0 of the heap of binding records.
\<close>

definition example_pixmap_env :: pixmap_env where
  "example_pixmap_env =
     \<lparr>BitsPerPixel = (\<lambda>d. if d \<le> 8 then 8 else if d \<le> 16 then 16 else 32),
      priv_calloc_ok = True, create_fbo_result = Some 7\<rparr>"

definition example_bound_world :: world where
  "example_bound_world =
     (case glamor_create_pixmap example_h example_pixmap_env example_active_world
             64 64 24 0 of
        Some (p, W) \<Rightarrow> W
      | None \<Rightarrow> example_active_world)"

definition example_bound_pixmap :: PixmapRec where
  "example_bound_pixmap =
     \<lparr>width = 64, height = 64, depth = 24, bitsPerPixel = 32, refcnt = 1,
      pixmap_private = Some 0\<rparr>"

definition example_bound_priv :: glamor_pixmap_private where
  "example_bound_priv = \<lparr>container = Some 0, pixmap_type = 4, fbo = Some 7\<rparr>"

section \<open>What the host observes\<close>

text \<open>
  The part of the state through which the host meets the backend: the screen (operation
  slots, picture screen, side-table entry) and the handlers registered with the event
  loop. Two outcomes of \<^verbatim>\<open>glamor_init\<close> are the same to the host when both are undefined,
  or both return the same value and leave the same view.
\<close>

definition host_view :: "world \<Rightarrow> ScreenRec \<times> (fnptr \<times> fnptr) list" where
  "host_view W = (screen W, block_handlers W)"

definition same_outcome ::
  "(bool \<times> world) option \<Rightarrow> (bool \<times> world) option \<Rightarrow> bool" where
  "same_outcome a b =
     (case (a, b) of
        (None, None) \<Rightarrow> True
      | (Some (r, X), Some (s, Y)) \<Rightarrow> r = s \<and> host_view X = host_view Y
      | _ \<Rightarrow> False)"

text \<open>
  The calls that \<^verbatim>\<open>glamor_close_screen\<close> makes before it returns or chains: the glyph
  finalizer and the finalizers of \<^verbatim>\<open>glamor_release_screen_priv\<close>.
\<close>

definition teardown_events :: "glamor_h \<Rightarrow> event list" where
  "teardown_events H =
     Ev_glamor_glyphs_fini #
     (if RENDER H then [Ev_glamor_fini_composite_shaders] else []) @
     [Ev_glamor_fini_pixmap_fbo, Ev_glamor_fini_solid_shader, Ev_glamor_fini_tile_shader,
      Ev_glamor_fini_putimage_shaders, Ev_glamor_fini_finish_access_shaders,
      Ev_glamor_pixmap_fini]"

section \<open>Facts about the concrete configuration\<close>

lemmas init_defs = glamor_init_def init_install_def init_render_def init_finish_def
  init_fail_def install_screen_procs_def install_picture_procs_def
  install_picture_create_destroy_def dixRegisterPrivateKey_def glamor_set_debug_level_def
  emit_def

lemmas close_defs = glamor_close_screen_def restore_screen_procs_def
  restore_picture_procs_def glamor_release_screen_priv_def call_CloseScreen_def

lemmas example_defs = example_h_def example_env_def example_world_def example_screen_def
  example_picture_screen_def calloc_screen_private_def calloc_saved_procs_def

lemmas pixmap_defs = glamor_create_pixmap_def create_pixmap_bind_def fbCreatePixmap_def
  fbDestroyPixmap_def calloc_pixmap_private_def free_pixmap_private_def
  dixSetPrivate_pixmap_def init_pixmap_private_def glamor_pixmap_attach_fbo_def
  ModifyPixmapHeader_def glamor_check_fbo_size_def

lemmas texture_defs = glamor_set_pixmap_texture_def glamor_pixmap_detach_fbo_def
  glamor_pixmap_attach_fbo_def glamor_destroy_fbo_def

lemma example_init_succeeds:
  "\<exists>W. glamor_init example_h example_env 6 example_world = Some (True, W)"
  by (simp add: init_defs example_defs Let_def)

lemma example_active_world_private:
  "screen_private (screen example_active_world) = Some example_priv"
  by (simp add: example_active_world_def example_priv_def example_saved_procs_def
        init_defs example_defs Let_def)

lemma example_active_world_heap:
  "pixmaps example_active_world = Map.empty" "next_pixmap example_active_world = 0"
  "pixmap_privs example_active_world = Map.empty" "next_priv example_active_world = 0"
  by (simp_all add: example_active_world_def init_defs example_defs Let_def)

lemma example_active_world_handlers:
  "block_handlers example_active_world =
     [(Fn_u_glamor_block_handler, Fn_u_glamor_wakeup_handler)]"
  by (simp add: example_active_world_def init_defs example_defs Let_def)

lemma example_active_world_trace: "trace example_active_world = example_init_trace"
  by (simp add: example_active_world_def example_init_trace_def init_defs example_defs
        Let_def)

lemma pixmap_pitch_64: "pixmap_pitch 64 32 = Some 256"
  by (simp add: pixmap_pitch_def in_int_range_def signed_divide_int_def)

lemma example_bound_world_pixmap:
  "pixmaps example_bound_world 0 = Some example_bound_pixmap"
  "pixmap_privs example_bound_world 0 = Some example_bound_priv"
  by (simp_all add: example_bound_world_def example_bound_pixmap_def example_bound_priv_def
        pixmap_defs emit_def example_active_world_private example_active_world_heap
        example_priv_def example_h_def example_pixmap_env_def pixmap_pitch_64 Let_def)

section \<open>Initialization reads and writes the host view only\<close>

lemma host_view_emit [simp]: "host_view (emit e W) = host_view W"
  by (simp add: host_view_def emit_def)

lemma init_fail_view:
  "host_view V = host_view W \<Longrightarrow> same_outcome (init_fail V) (init_fail W)"
  by (simp add: init_fail_def same_outcome_def host_view_def)

lemma init_finish_view:
  "host_view V = host_view W \<Longrightarrow>
   same_outcome (init_finish H f P V) (init_finish H f P W)"
  by (simp add: init_finish_def same_outcome_def host_view_def emit_def Let_def)

lemma init_render_view:
  assumes "host_view V = host_view W"
  shows "(init_render H f P V = None \<and> init_render H f P W = None) \<or>
         (\<exists>Q X Y. init_render H f P V = Some (Q, X) \<and> init_render H f P W = Some (Q, Y)
                  \<and> host_view X = host_view Y)"
  using assms
  by (simp add: init_render_def host_view_def emit_def Let_def
        split: option.split prod.split)

lemma render_finish_view:
  assumes "host_view X = host_view Y"
  shows "same_outcome
           (case init_render H f P X of None \<Rightarrow> None
            | Some (P2, W2) \<Rightarrow> init_finish H f P2 W2)
           (case init_render H f P Y of None \<Rightarrow> None
            | Some (P2, W2) \<Rightarrow> init_finish H f P2 W2)"
proof -
  from init_render_view [OF assms, of H f P]
  consider (undef) "init_render H f P X = None" "init_render H f P Y = None"
    | (def) Q X' Y' where "init_render H f P X = Some (Q, X')"
        "init_render H f P Y = Some (Q, Y')" "host_view X' = host_view Y'"
    by auto
  then show ?thesis
  proof cases
    case undef
    then show ?thesis by (simp add: same_outcome_def)
  next
    case def
    with init_finish_view [OF def(3), of H f Q] show ?thesis by simp
  qed
qed

lemma init_install_view:
  assumes "host_view V = host_view W"
  shows "same_outcome (init_install H E f P V) (init_install H E f P W)"
proof -
  have sv: "screen V = screen W" and bv: "block_handlers V = block_handlers W"
    using assms by (simp_all add: host_view_def)
  consider (fail) "f AND GLAMOR_USE_SCREEN H \<noteq> 0" "\<not> register_handlers_ok E"
    | (hooks) "f AND GLAMOR_USE_SCREEN H \<noteq> 0" "register_handlers_ok E"
    | (plain) "f AND GLAMOR_USE_SCREEN H = 0"
    by blast
  then show ?thesis
  proof cases
    case fail
    then show ?thesis using init_fail_view [OF assms] by (simp add: init_install_def)
  next
    case hooks
    obtain sp S where inst: "install_screen_procs (saved_procs P) (screen W) = (sp, S)"
      by (cases "install_screen_procs (saved_procs P) (screen W)")
    have "host_view (V\<lparr>block_handlers := block_handlers W @
              [(Fn_u_glamor_block_handler, Fn_u_glamor_wakeup_handler)], screen := S\<rparr>)
        = host_view (W\<lparr>block_handlers := block_handlers W @
              [(Fn_u_glamor_block_handler, Fn_u_glamor_wakeup_handler)], screen := S\<rparr>)"
      by (simp add: host_view_def)
    from render_finish_view [OF this] hooks show ?thesis
      by (simp add: init_install_def Let_def sv bv inst)
  next
    case plain
    then show ?thesis
      using render_finish_view [OF assms] by (simp add: init_install_def)
  qed
qed

lemma glamor_init_view:
  assumes "host_view V = host_view W"
  shows "same_outcome (glamor_init H E f V) (glamor_init H E f W)"
proof (cases "f AND NOT (GLAMOR_VALID_FLAGS H) \<noteq> 0 \<or> \<not> calloc_ok E")
  case True
  then show ?thesis using assms by (auto simp: glamor_init_def same_outcome_def)
next
  case False
  then show ?thesis
    using assms unfolding glamor_init_def Let_def split_beta
    by (auto intro!: init_fail_view init_install_view
             simp: host_view_def emit_def dixRegisterPrivateKey_def
                   glamor_set_debug_level_def
             split: option.split)
qed

section \<open>Where initialization can fail\<close>

lemma init_fail_False:
  "init_fail W = Some (r, W') \<Longrightarrow>
   \<not> r \<and> host_view W' = (screen W\<lparr>screen_private := None\<rparr>, block_handlers W)
       \<and> pixmaps W' = pixmaps W"
  by (auto simp: init_fail_def host_view_def)

lemma init_finish_True:
  "init_finish H f P W = Some (r, W') \<Longrightarrow> r \<and> block_handlers W' = block_handlers W"
  by (auto simp: init_finish_def emit_def Let_def)

lemma init_render_block_handlers:
  "init_render H f P W = Some (Q, W') \<Longrightarrow> block_handlers W' = block_handlers W"
  by (auto simp: init_render_def emit_def Let_def
        split: if_splits option.splits prod.splits)

lemma init_install_False:
  assumes "init_install H E f P W = Some (False, W')"
  shows "host_view W' = (screen W\<lparr>screen_private := None\<rparr>, block_handlers W)
         \<and> pixmaps W' = pixmaps W"
  using assms
  by (auto simp: init_install_def Let_def split: if_splits option.splits prod.splits
           dest: init_finish_True init_fail_False)

lemma glamor_init_False:
  assumes "glamor_init H E f W = Some (False, W')"
  shows "(host_view W' = host_view W \<or>
          host_view W' = (screen W\<lparr>screen_private := None\<rparr>, block_handlers W))
         \<and> pixmaps W' = pixmaps W"
  using assms unfolding glamor_init_def Let_def split_beta
  by (auto simp: host_view_def emit_def dixRegisterPrivateKey_def
                 glamor_set_debug_level_def
           split: if_splits option.splits
           dest!: init_install_False init_fail_False)

lemma init_install_block_handlers:
  assumes "init_install H E f P W = Some (True, W')"
  shows "block_handlers W' = block_handlers W @
           (if f AND GLAMOR_USE_SCREEN H \<noteq> 0
            then [(Fn_u_glamor_block_handler, Fn_u_glamor_wakeup_handler)] else [])"
  using assms
  by (auto simp: init_install_def Let_def
           split: if_splits option.splits prod.splits
           dest!: init_finish_True init_render_block_handlers init_fail_False)

lemma glamor_init_block_handlers:
  assumes "glamor_init H E f W = Some (True, W')"
  shows "block_handlers W' = block_handlers W @
           (if f AND GLAMOR_USE_SCREEN H \<noteq> 0
            then [(Fn_u_glamor_block_handler, Fn_u_glamor_wakeup_handler)] else [])"
  using assms unfolding glamor_init_def Let_def split_beta
  by (auto simp: emit_def dixRegisterPrivateKey_def glamor_set_debug_level_def
           split: if_splits option.splits
           dest!: init_install_block_handlers init_fail_False)

section \<open>Install and restore\<close>

text \<open>
  C1. Install followed at once by restore should give every slot that install overwrote
  its saved handler back. It does not: \<^verbatim>\<open>glamor_close_screen\<close> writes back eight of the
  nine screen slots and four of the six picture slots of the picture selector, never
  \<open>GetImage\<close>, \<open>AddTraps\<close>, \<open>UnrealizeGlyph\<close> or \<open>DestroyPicture\<close>, and \<open>CreatePicture\<close>
  only under the picture selector although \<^verbatim>\<open>glamor_init\<close> overwrites it under every
  selector set. On the example screen, initialized with both selectors (flags 6) and torn
  down, these slots still hold the backend's handlers, while \<open>CloseScreen\<close> and
  \<open>Composite\<close> are restored; initialized with the screen selector alone (flags 2),
  \<open>CreatePicture\<close> stays overwritten as well.
\<close>

theorem install_restore_leaves_backend_handlers:
  "(\<exists>W1 W2.
      glamor_init example_h example_env 6 example_world = Some (True, W1) \<and>
      glamor_close_screen example_h (\<lambda>n. True) W1 = Some (True, W2) \<and>
      GetImage (screen example_world) = Fn_host 6 \<and>
      GetImage (screen W2) = Fn_glamor_get_image \<and>
      map_option AddTraps (picture_screen (screen example_world)) = Some (Fn_host 14) \<and>
      map_option AddTraps (picture_screen (screen W2)) = Some Fn_glamor_add_traps \<and>
      map_option UnrealizeGlyph (picture_screen (screen example_world))
        = Some (Fn_host 15) \<and>
      map_option UnrealizeGlyph (picture_screen (screen W2))
        = Some Fn_glamor_glyph_unrealize \<and>
      map_option DestroyPicture (picture_screen (screen example_world))
        = Some (Fn_host 17) \<and>
      map_option DestroyPicture (picture_screen (screen W2))
        = Some Fn_glamor_destroy_picture \<and>
      CloseScreen (screen W2) = Fn_host 1 \<and>
      map_option Composite (picture_screen (screen W2)) = Some (Fn_host 10) \<and>
      map_option CreatePicture (picture_screen (screen W2)) = Some (Fn_host 16)) \<and>
   (\<exists>W1 W2.
      glamor_init example_h example_env 2 example_world = Some (True, W1) \<and>
      glamor_close_screen example_h (\<lambda>n. True) W1 = Some (True, W2) \<and>
      map_option CreatePicture (picture_screen (screen example_world))
        = Some (Fn_host 16) \<and>
      map_option CreatePicture (picture_screen (screen W2))
        = Some Fn_glamor_create_picture \<and>
      GetImage (screen W2) = Fn_glamor_get_image)"
  by (simp add: init_defs close_defs example_defs Let_def)

section \<open>Failed initialization\<close>

text \<open>
  C3. A flag set with a bit outside the recognized set makes \<^verbatim>\<open>glamor_init\<close> return
  failure. Whenever \<^verbatim>\<open>glamor_init\<close> returns failure, for whatever reason, every operation
  slot of the screen and of the picture screen is as before, no handler was registered
  with the event loop and no pixmap was touched; on a screen that had no context record
  none is left, so the host view is exactly the one before the call, and every later
  attempt, with any flags and any answers of the host and GPU, has the outcome it would
  have had without the failed one: the same return value and the same host view. (The
  private keys registered on the way stay registered and the debug level may have been
  set; neither is a handler or a side-table entry, and neither is read again.)
\<close>

theorem glamor_init_failure_leaves_host_clean:
  "(flgs AND NOT (GLAMOR_VALID_FLAGS H) \<noteq> 0 \<longrightarrow>
      glamor_init H E flgs W =
        Some (False, emit (Ev_ErrorF ''glamor_init: Invalid flags'') W)) \<and>
   (\<forall>W'. glamor_init H E flgs W = Some (False, W') \<longrightarrow>
      (screen W')\<lparr>screen_private := None\<rparr> = (screen W)\<lparr>screen_private := None\<rparr> \<and>
      block_handlers W' = block_handlers W \<and>
      pixmaps W' = pixmaps W \<and>
      (screen_private (screen W) = None \<longrightarrow>
         host_view W' = host_view W \<and>
         (\<forall>E2 f2. same_outcome (glamor_init H E2 f2 W') (glamor_init H E2 f2 W))))"
proof (intro conjI allI impI)
  assume "flgs AND NOT (GLAMOR_VALID_FLAGS H) \<noteq> 0"
  then show "glamor_init H E flgs W =
      Some (False, emit (Ev_ErrorF ''glamor_init: Invalid flags'') W)"
    by (simp add: glamor_init_def)
next
  fix W'
  assume fl: "glamor_init H E flgs W = Some (False, W')"
  from glamor_init_False [OF fl]
  have v: "host_view W' = host_view W \<or>
           host_view W' = (screen W\<lparr>screen_private := None\<rparr>, block_handlers W)"
    and px: "pixmaps W' = pixmaps W"
    by simp_all
  from v show "(screen W')\<lparr>screen_private := None\<rparr> = (screen W)\<lparr>screen_private := None\<rparr>"
    by (auto simp: host_view_def)
  from v show "block_handlers W' = block_handlers W"
    by (auto simp: host_view_def)
  from px show "pixmaps W' = pixmaps W" .
  assume clean: "screen_private (screen W) = None"
  then have "screen W\<lparr>screen_private := None\<rparr> = screen W"
    by simp
  with v show hv: "host_view W' = host_view W"
    by (auto simp: host_view_def)
  fix E2 f2
  from glamor_init_view [OF hv]
  show "same_outcome (glamor_init H E2 f2 W') (glamor_init H E2 f2 W)" .
qed

theorem glamor_init_failure_leaves_host_clean_witness:
  "(8 :: 32 word) AND NOT (GLAMOR_VALID_FLAGS example_h) \<noteq> 0 \<and>
   screen_private (screen example_world) = None \<and>
   (\<exists>W'. glamor_init example_h example_env 8 example_world = Some (False, W') \<and>
         host_view W' = host_view example_world \<and>
         (\<exists>W''. glamor_init example_h example_env 6 W' = Some (True, W''))) \<and>
   (\<exists>W'. glamor_init example_h (example_env\<lparr>gl_version := 12\<rparr>) 6 example_world
           = Some (False, W') \<and>
         host_view W' = host_view example_world \<and>
         (\<exists>W''. glamor_init example_h example_env 6 W' = Some (True, W'')))"
proof -
  have bad: "(8 :: 32 word) AND NOT (GLAMOR_VALID_FLAGS example_h) \<noteq> 0"
    by (simp add: example_h_def)
  have clean: "screen_private (screen example_world) = None"
    by (simp add: example_world_def example_screen_def)
  have retry: "host_view W' = host_view example_world \<and>
               (\<exists>W''. glamor_init example_h example_env 6 W' = Some (True, W''))"
    if "glamor_init example_h E f example_world = Some (False, W')" for E f W'
  proof -
    from glamor_init_failure_leaves_host_clean [of f example_h E example_world] that clean
    have hv: "host_view W' = host_view example_world"
      and so: "same_outcome (glamor_init example_h example_env 6 W')
                 (glamor_init example_h example_env 6 example_world)"
      by blast+
    from so example_init_succeeds
    have "\<exists>W''. glamor_init example_h example_env 6 W' = Some (True, W'')"
      by (auto simp: same_outcome_def split: option.splits)
    with hv show ?thesis by simp
  qed
  from glamor_init_failure_leaves_host_clean [of 8 example_h example_env example_world] bad
  have f1: "\<exists>W'. glamor_init example_h example_env 8 example_world = Some (False, W')"
    by blast
  have f2: "\<exists>W'. glamor_init example_h (example_env\<lparr>gl_version := 12\<rparr>) 6 example_world
                   = Some (False, W')"
    by (simp add: init_defs example_defs Let_def)
  from bad clean f1 f2 retry show ?thesis by blast
qed

section \<open>Teardown chains to the saved close handler\<close>

text \<open>
  C8. On a screen with a context record: when the screen selector was active and the
  saved close handler is a handler of the host, \<^verbatim>\<open>glamor_close_screen\<close> restores the
  \<open>CloseScreen\<close> slot, runs the finalizers, clears the side-table entry, then calls the
  restored handler as its last action and returns what that handler returns. When the
  screen selector was not active it runs the same finalizers, calls no close handler and
  returns success.
\<close>

theorem glamor_close_screen_chains_to_saved_handler:
  assumes "screen_private (screen W) = Some P"
  shows "(\<forall>n. flags P AND GLAMOR_USE_SCREEN H \<noteq> 0 \<and>
              close_screen (saved_procs P) = Fn_host n \<longrightarrow>
            (\<exists>W'. glamor_close_screen H host_close W = Some (host_close n, W') \<and>
                  CloseScreen (screen W') = Fn_host n \<and>
                  screen_private (screen W') = None \<and>
                  trace W' = trace W @ teardown_events H @
                               [Ev_call_CloseScreen (Fn_host n)])) \<and>
         (flags P AND GLAMOR_USE_SCREEN H = 0 \<longrightarrow>
            (\<exists>W'. glamor_close_screen H host_close W = Some (True, W') \<and>
                  CloseScreen (screen W') = CloseScreen (screen W) \<and>
                  screen_private (screen W') = None \<and>
                  trace W' = trace W @ teardown_events H))"
  using assms
  by (auto simp: close_defs emit_def teardown_events_def Let_def split: option.split)

theorem glamor_close_screen_chains_to_saved_handler_witness:
  "screen_private (screen example_active_world) = Some example_priv \<and>
   flags example_priv AND GLAMOR_USE_SCREEN example_h \<noteq> 0 \<and>
   close_screen (saved_procs example_priv) = Fn_host 1 \<and>
   (\<exists>W'. glamor_close_screen example_h (\<lambda>n. n \<noteq> 1) example_active_world
           = Some (False, W') \<and>
         CloseScreen (screen W') = Fn_host 1 \<and>
         trace W' = trace example_active_world @ teardown_events example_h @
                      [Ev_call_CloseScreen (Fn_host 1)]) \<and>
   (\<exists>W P. glamor_init example_h example_env 4 example_world = Some (True, W) \<and>
          screen_private (screen W) = Some P \<and>
          flags P AND GLAMOR_USE_SCREEN example_h = 0 \<and>
          (\<exists>W'. glamor_close_screen example_h (\<lambda>n. False) W = Some (True, W') \<and>
                trace W' = trace W @ teardown_events example_h))"
proof -
  have h1: "screen_private (screen example_active_world) = Some example_priv"
    by (rule example_active_world_private)
  have h2: "flags example_priv AND GLAMOR_USE_SCREEN example_h \<noteq> 0"
    by (simp add: example_priv_def example_h_def)
  have h3: "close_screen (saved_procs example_priv) = Fn_host 1"
    by (simp add: example_priv_def example_saved_procs_def)
  from glamor_close_screen_chains_to_saved_handler
         [OF h1, where H = example_h and host_close = "\<lambda>n. n \<noteq> 1"] h2 h3
  have a: "\<exists>W'. glamor_close_screen example_h (\<lambda>n. n \<noteq> 1) example_active_world
                  = Some (False, W') \<and>
              CloseScreen (screen W') = Fn_host 1 \<and>
              trace W' = trace example_active_world @ teardown_events example_h @
                           [Ev_call_CloseScreen (Fn_host 1)]"
    by auto
  obtain W P where i: "glamor_init example_h example_env 4 example_world = Some (True, W)"
    and p: "screen_private (screen W) = Some P"
    and f: "flags P AND GLAMOR_USE_SCREEN example_h = 0"
    by (simp add: init_defs example_defs Let_def)
  from glamor_close_screen_chains_to_saved_handler
         [OF p, where H = example_h and host_close = "\<lambda>n. False"] f
  have "\<exists>W'. glamor_close_screen example_h (\<lambda>n. False) W = Some (True, W') \<and>
             trace W' = trace W @ teardown_events example_h"
    by auto
  with i p f have b: "\<exists>W P. glamor_init example_h example_env 4 example_world = Some (True, W) \<and>
          screen_private (screen W) = Some P \<and>
          flags P AND GLAMOR_USE_SCREEN example_h = 0 \<and>
          (\<exists>W'. glamor_close_screen example_h (\<lambda>n. False) W = Some (True, W') \<and>
                trace W' = trace W @ teardown_events example_h)"
    by blast
  from h1 h2 h3 a b show ?thesis by blast
qed

text \<open>
  C10. \<^verbatim>\<open>glamor_fini\<close> leaves the whole state as it is: screen, operation slots,
  side-table entries, registered handlers, pixmaps and the record of outside calls.
\<close>

theorem glamor_fini_changes_nothing: "glamor_fini W = W"
  by (simp add: glamor_fini_def)

section \<open>The per-frame handlers\<close>

text \<open>
  C5 as stated, that the handler registered at initialization flushes, waits and then
  expires the pool, fails: on the initialized example screen the registered block handler
  is \<^verbatim>\<open>_glamor_block_handler\<close>, and the calls recorded after it has run end with the flush
  and the wait; no expire was called.
\<close>

theorem registered_block_handler_counterexample:
  "block_handlers example_active_world =
     [(Fn_u_glamor_block_handler, Fn_u_glamor_wakeup_handler)] \<and>
   map_option trace (call_block_handler Fn_u_glamor_block_handler example_active_world)
     = Some [Ev_glamor_gl_dispatch_init 21, Ev_glamor_init_composite_shaders,
             Ev_glamor_init_pixmap_fbo, Ev_glamor_init_solid_shader,
             Ev_glamor_init_tile_shader, Ev_glamor_init_putimage_shaders,
             Ev_glamor_init_finish_access_shaders, Ev_glamor_pixmap_init,
             Ev_glFlush, Ev_glFinish]"
  by (simp add: example_active_world_handlers call_block_handler_def
        u_glamor_block_handler_def example_active_world_private example_priv_def emit_def
        example_active_world_trace example_init_trace_def)

text \<open>
  C5, amended. A successful \<^verbatim>\<open>glamor_init\<close> registers exactly one pair of handlers with
  the event loop when the screen selector is set, \<^verbatim>\<open>_glamor_block_handler\<close> and
  \<^verbatim>\<open>_glamor_wakeup_handler\<close>, and none otherwise. On a screen with an initialized context
  the registered block handler flushes and then waits for the GPU, and does nothing
  else; the exported \<^verbatim>\<open>glamor_block_handler\<close> increments the tick, flushes, waits and
  then calls the pool's expire for the incremented tick, in that order.
\<close>

theorem block_handlers_flush_finish_expire:
  "(\<forall>W'. glamor_init H E flgs W = Some (True, W') \<longrightarrow>
      block_handlers W' = block_handlers W @
        (if flgs AND GLAMOR_USE_SCREEN H \<noteq> 0
         then [(Fn_u_glamor_block_handler, Fn_u_glamor_wakeup_handler)] else [])) \<and>
   (\<forall>P. screen_private (screen W) = Some P \<and> dispatch_initialized P \<longrightarrow>
      call_block_handler Fn_u_glamor_block_handler W =
        Some (W\<lparr>trace := trace W @ [Ev_glFlush, Ev_glFinish]\<rparr>) \<and>
      glamor_block_handler W =
        Some (W\<lparr>screen := (screen W)\<lparr>screen_private := Some (P\<lparr>tick := tick P + 1\<rparr>)\<rparr>,
                trace := trace W @ [Ev_glFlush, Ev_glFinish,
                                    Ev_glamor_fbo_expire (tick P + 1)]\<rparr>))"
  using glamor_init_block_handlers [of H E flgs W]
  by (auto simp: call_block_handler_def u_glamor_block_handler_def glamor_block_handler_def
        emit_def Let_def)

theorem block_handlers_flush_finish_expire_witness:
  "(\<exists>W'. glamor_init example_h example_env 6 example_world = Some (True, W') \<and>
         block_handlers W' = [(Fn_u_glamor_block_handler, Fn_u_glamor_wakeup_handler)]) \<and>
   screen_private (screen example_active_world) = Some example_priv \<and>
   dispatch_initialized example_priv \<and>
   call_block_handler Fn_u_glamor_block_handler example_active_world =
     Some (example_active_world\<lparr>trace := example_init_trace @ [Ev_glFlush, Ev_glFinish]\<rparr>) \<and>
   map_option trace (glamor_block_handler example_active_world) =
     Some (example_init_trace @ [Ev_glFlush, Ev_glFinish, Ev_glamor_fbo_expire 1])"
proof -
  obtain W' where i: "glamor_init example_h example_env 6 example_world = Some (True, W')"
    using example_init_succeeds by blast
  from block_handlers_flush_finish_expire [of example_h example_env 6 example_world] i
  have "block_handlers W' = block_handlers example_world @
          (if (6 :: 32 word) AND GLAMOR_USE_SCREEN example_h \<noteq> 0
           then [(Fn_u_glamor_block_handler, Fn_u_glamor_wakeup_handler)] else [])"
    by blast
  then have a: "block_handlers W' = [(Fn_u_glamor_block_handler, Fn_u_glamor_wakeup_handler)]"
    by (simp add: example_world_def example_h_def)
  have h1: "screen_private (screen example_active_world) = Some example_priv"
    by (rule example_active_world_private)
  have h2: "dispatch_initialized example_priv"
    by (simp add: example_priv_def)
  from block_handlers_flush_finish_expire [of example_h example_env 6 example_active_world]
    h1 h2
  have b: "call_block_handler Fn_u_glamor_block_handler example_active_world =
        Some (example_active_world
                \<lparr>trace := trace example_active_world @ [Ev_glFlush, Ev_glFinish]\<rparr>)"
    and c: "glamor_block_handler example_active_world =
        Some (example_active_world
                \<lparr>screen := (screen example_active_world)
                    \<lparr>screen_private := Some (example_priv\<lparr>tick := tick example_priv + 1\<rparr>)\<rparr>,
                 trace := trace example_active_world @
                   [Ev_glFlush, Ev_glFinish, Ev_glamor_fbo_expire (tick example_priv + 1)]\<rparr>)"
    by blast+
  from c have c': "map_option trace (glamor_block_handler example_active_world) =
     Some (example_init_trace @ [Ev_glFlush, Ev_glFinish, Ev_glamor_fbo_expire 1])"
    by (simp add: example_active_world_trace example_priv_def)
  from i a h1 h2 b c' show ?thesis
    by (simp add: example_active_world_trace)
qed

section \<open>Creating pixmaps\<close>

lemma pixmap_pitch_defined:
  assumes "0 \<le> w" "w \<le> 32767"
  shows "\<exists>pitch. pixmap_pitch w bpp = Some pitch"
proof -
  have b: "0 \<le> uint bpp" "uint bpp \<le> 255"
    using uint_lt2p [of bpp] by simp_all
  have lo: "0 \<le> w * uint bpp" using assms b by simp
  have "w * uint bpp \<le> 32767 * 255"
    using assms b by (intro mult_mono) simp_all
  then have hi: "w * uint bpp \<le> 8355585" by simp
  have sd: "(w * uint bpp + 7) sdiv 8 = (w * uint bpp + 7) div 8"
    using lo by (simp add: signed_divide_int_def sgn_if)
  have "0 \<le> (w * uint bpp + 7) div 8" "(w * uint bpp + 7) div 8 \<le> 8355592"
    using lo hi by simp_all
  then show ?thesis
    using lo hi by (simp add: pixmap_pitch_def in_int_range_def sd)
qed

text \<open>
  C2 as stated, that creation never returns a null value, also for a width or height
  above 32767, fails: for width 32768 on the initialized example screen
  \<^verbatim>\<open>glamor_create_pixmap\<close> returns \<^verbatim>\<open>NullPixmap\<close> and changes nothing.
\<close>

theorem glamor_create_pixmap_null_counterexample:
  "glamor_create_pixmap example_h example_pixmap_env example_active_world 32768 1 24 0
     = Some (None, example_active_world)"
  by (simp add: glamor_create_pixmap_def)

text \<open>
  C2, amended. Every request with a width or a height above 32767 returns
  \<^verbatim>\<open>NullPixmap\<close> and changes nothing. On a screen with a context record, every request
  with a width from 0 to 32767 and a height of at most 32767 returns a pixmap that exists
  in the new state, and which one is determined path by path:
  \<^item> not feasible (size above the maximum, depth not supported, or CPU usage): the software
    pixmap of the size asked for, without binding record, and no binding record is
    allocated;
  \<^item> feasible, but no memory for the binding record: a second pixmap, the software pixmap
    of the size asked for, without binding record;
  \<^item> feasible, binding record allocated, width or height 0: the zero-sized placeholder,
    with a binding record that owns no render target;
  \<^item> feasible, binding record allocated, size not empty, the pool returns no render
    target: a second pixmap, the software pixmap of the size asked for, without binding
    record; the placeholder is gone and its binding record is freed;
  \<^item> feasible, binding record allocated, size not empty, the pool returns a render
    target: the accelerated pixmap, the placeholder with the width asked for (and the
    height, when positive), whose binding record owns that render target.
\<close>

theorem glamor_create_pixmap_returns_pixmap:
  "(32767 < w \<or> 32767 < h \<longrightarrow> glamor_create_pixmap H E W w h d u = Some (None, W)) \<and>
   (screen_private (screen W) = Some P \<and> 0 \<le> w \<and> w \<le> 32767 \<and> h \<le> 32767 \<longrightarrow>
     (\<exists>p W' pm.
        glamor_create_pixmap H E W w h d u = Some (Some p, W') \<and>
        pixmaps W' p = Some pm \<and>
        (if glamor_check_fbo_size P w h \<and> glamor_check_fbo_depth H d \<and>
            u \<noteq> GLAMOR_CREATE_PIXMAP_CPU H
         then
           if priv_calloc_ok E then
             if w = 0 \<or> h = 0 then
               p = next_pixmap W \<and>
               pm = \<lparr>width = 0, height = 0, depth = d, bitsPerPixel = BitsPerPixel E d,
                      refcnt = 1, pixmap_private = Some (next_priv W)\<rparr> \<and>
               pixmap_privs W' = (pixmap_privs W)(next_priv W \<mapsto>
                 \<lparr>container = Some p, pixmap_type = GLAMOR_TEXTURE_ONLY H, fbo = None\<rparr>)
             else
               (case create_fbo_result E of
                  Some f \<Rightarrow>
                    p = next_pixmap W \<and>
                    pm = \<lparr>width = w, height = (if 0 < h then h else 0), depth = d,
                           bitsPerPixel = BitsPerPixel E d, refcnt = 1,
                           pixmap_private = Some (next_priv W)\<rparr> \<and>
                    pixmap_privs W' = (pixmap_privs W)(next_priv W \<mapsto>
                      \<lparr>container = Some p, pixmap_type = GLAMOR_TEXTURE_ONLY H,
                       fbo = Some f\<rparr>)
                | None \<Rightarrow>
                    p = Suc (next_pixmap W) \<and>
                    pm = \<lparr>width = w, height = h, depth = d,
                           bitsPerPixel = BitsPerPixel E d, refcnt = 1,
                           pixmap_private = None\<rparr> \<and>
                    pixmaps W' (next_pixmap W) = None \<and>
                    pixmap_privs W' = (pixmap_privs W)(next_priv W := None))
           else
             p = Suc (next_pixmap W) \<and>
             pm = \<lparr>width = w, height = h, depth = d, bitsPerPixel = BitsPerPixel E d,
                    refcnt = 1, pixmap_private = None\<rparr> \<and>
             pixmap_privs W' = pixmap_privs W
         else
           p = next_pixmap W \<and>
           pm = \<lparr>width = w, height = h, depth = d, bitsPerPixel = BitsPerPixel E d,
                  refcnt = 1, pixmap_private = None\<rparr> \<and>
           pixmap_privs W' = pixmap_privs W)))"
proof (intro conjI impI)
  assume "32767 < w \<or> 32767 < h"
  then show "glamor_create_pixmap H E W w h d u = Some (None, W)"
    by (auto simp: glamor_create_pixmap_def)
next
  assume a: "screen_private (screen W) = Some P \<and> 0 \<le> w \<and> w \<le> 32767 \<and> h \<le> 32767"
  then obtain pitch where pitch: "pixmap_pitch w (BitsPerPixel E d) = Some pitch"
    using pixmap_pitch_defined [of w] by blast
  show "\<exists>p W' pm.
        glamor_create_pixmap H E W w h d u = Some (Some p, W') \<and>
        pixmaps W' p = Some pm \<and>
        (if glamor_check_fbo_size P w h \<and> glamor_check_fbo_depth H d \<and>
            u \<noteq> GLAMOR_CREATE_PIXMAP_CPU H
         then
           if priv_calloc_ok E then
             if w = 0 \<or> h = 0 then
               p = next_pixmap W \<and>
               pm = \<lparr>width = 0, height = 0, depth = d, bitsPerPixel = BitsPerPixel E d,
                      refcnt = 1, pixmap_private = Some (next_priv W)\<rparr> \<and>
               pixmap_privs W' = (pixmap_privs W)(next_priv W \<mapsto>
                 \<lparr>container = Some p, pixmap_type = GLAMOR_TEXTURE_ONLY H, fbo = None\<rparr>)
             else
               (case create_fbo_result E of
                  Some f \<Rightarrow>
                    p = next_pixmap W \<and>
                    pm = \<lparr>width = w, height = (if 0 < h then h else 0), depth = d,
                           bitsPerPixel = BitsPerPixel E d, refcnt = 1,
                           pixmap_private = Some (next_priv W)\<rparr> \<and>
                    pixmap_privs W' = (pixmap_privs W)(next_priv W \<mapsto>
                      \<lparr>container = Some p, pixmap_type = GLAMOR_TEXTURE_ONLY H,
                       fbo = Some f\<rparr>)
                | None \<Rightarrow>
                    p = Suc (next_pixmap W) \<and>
                    pm = \<lparr>width = w, height = h, depth = d,
                           bitsPerPixel = BitsPerPixel E d, refcnt = 1,
                           pixmap_private = None\<rparr> \<and>
                    pixmaps W' (next_pixmap W) = None \<and>
                    pixmap_privs W' = (pixmap_privs W)(next_priv W := None))
           else
             p = Suc (next_pixmap W) \<and>
             pm = \<lparr>width = w, height = h, depth = d, bitsPerPixel = BitsPerPixel E d,
                    refcnt = 1, pixmap_private = None\<rparr> \<and>
             pixmap_privs W' = pixmap_privs W
         else
           p = next_pixmap W \<and>
           pm = \<lparr>width = w, height = h, depth = d, bitsPerPixel = BitsPerPixel E d,
                  refcnt = 1, pixmap_private = None\<rparr> \<and>
           pixmap_privs W' = pixmap_privs W)"
    using a pitch
    by (auto simp: pixmap_defs emit_def Let_def split: option.split)
qed

theorem glamor_create_pixmap_returns_pixmap_witness:
  "(32767 :: int) < 32768 \<and>
   glamor_create_pixmap example_h example_pixmap_env example_active_world 32768 1 24 0
     = Some (None, example_active_world) \<and>
   (32767 :: int) < 40000 \<and>
   glamor_create_pixmap example_h example_pixmap_env example_active_world 1 40000 24 0
     = Some (None, example_active_world) \<and>
   screen_private (screen example_active_world) = Some example_priv \<and>
   (0 :: int) \<le> 64 \<and> (64 :: int) \<le> 32767 \<and>
   (\<exists>W'. glamor_create_pixmap example_h example_pixmap_env example_active_world 64 64 24 0
           = Some (Some 0, W') \<and>
         pixmaps W' 0 = Some \<lparr>width = 64, height = 64, depth = 24, bitsPerPixel = 32,
                               refcnt = 1, pixmap_private = Some 0\<rparr> \<and>
         pixmap_privs W' 0 = Some \<lparr>container = Some 0, pixmap_type = 4, fbo = Some 7\<rparr>) \<and>
   (\<exists>W'. glamor_create_pixmap example_h (example_pixmap_env\<lparr>priv_calloc_ok := False\<rparr>)
           example_active_world 64 64 24 0 = Some (Some 1, W') \<and>
         pixmaps W' 1 = Some \<lparr>width = 64, height = 64, depth = 24, bitsPerPixel = 32,
                               refcnt = 1, pixmap_private = None\<rparr>) \<and>
   (\<exists>W'. glamor_create_pixmap example_h example_pixmap_env example_active_world 0 10 24 0
           = Some (Some 0, W') \<and>
         pixmaps W' 0 = Some \<lparr>width = 0, height = 0, depth = 24, bitsPerPixel = 32,
                               refcnt = 1, pixmap_private = Some 0\<rparr> \<and>
         pixmap_privs W' 0 = Some \<lparr>container = Some 0, pixmap_type = 4, fbo = None\<rparr>)"
proof -
  have h1: "screen_private (screen example_active_world) = Some example_priv"
    by (rule example_active_world_private)
  have feas: "glamor_check_fbo_size example_priv 64 64" "glamor_check_fbo_size example_priv 0 10"
    "glamor_check_fbo_depth example_h 24" "0 \<noteq> GLAMOR_CREATE_PIXMAP_CPU example_h"
    "GLAMOR_TEXTURE_ONLY example_h = 4"
    by (simp_all add: glamor_check_fbo_size_def example_priv_def example_h_def)
  have env: "priv_calloc_ok example_pixmap_env" "create_fbo_result example_pixmap_env = Some 7"
    "BitsPerPixel example_pixmap_env 24 = 32"
    by (simp_all add: example_pixmap_env_def)
  have n1: "glamor_create_pixmap example_h example_pixmap_env example_active_world
              32768 1 24 0 = Some (None, example_active_world)"
    using glamor_create_pixmap_returns_pixmap [of 32768 1 example_h example_pixmap_env example_active_world 24 0] by simp
  have n2: "glamor_create_pixmap example_h example_pixmap_env example_active_world
              1 40000 24 0 = Some (None, example_active_world)"
    using glamor_create_pixmap_returns_pixmap [of 1 40000 example_h example_pixmap_env example_active_world 24 0] by simp
  have a: "\<exists>W'. glamor_create_pixmap example_h example_pixmap_env example_active_world
                   64 64 24 0 = Some (Some 0, W') \<and>
         pixmaps W' 0 = Some \<lparr>width = 64, height = 64, depth = 24, bitsPerPixel = 32,
                               refcnt = 1, pixmap_private = Some 0\<rparr> \<and>
         pixmap_privs W' 0 = Some \<lparr>container = Some 0, pixmap_type = 4, fbo = Some 7\<rparr>"
    using glamor_create_pixmap_returns_pixmap [of 64 64 example_h example_pixmap_env example_active_world 24 0 example_priv]
      h1 feas env
    by (auto simp: example_active_world_heap)
  have b: "\<exists>W'. glamor_create_pixmap example_h (example_pixmap_env\<lparr>priv_calloc_ok := False\<rparr>)
           example_active_world 64 64 24 0 = Some (Some 1, W') \<and>
         pixmaps W' 1 = Some \<lparr>width = 64, height = 64, depth = 24, bitsPerPixel = 32,
                               refcnt = 1, pixmap_private = None\<rparr>"
    using glamor_create_pixmap_returns_pixmap [of 64 64 example_h "example_pixmap_env\<lparr>priv_calloc_ok := False\<rparr>"
                example_active_world 24 0 example_priv]
      h1 feas env
    by (auto simp: example_active_world_heap)
  have c: "\<exists>W'. glamor_create_pixmap example_h example_pixmap_env example_active_world
                   0 10 24 0 = Some (Some 0, W') \<and>
         pixmaps W' 0 = Some \<lparr>width = 0, height = 0, depth = 24, bitsPerPixel = 32,
                               refcnt = 1, pixmap_private = Some 0\<rparr> \<and>
         pixmap_privs W' 0 = Some \<lparr>container = Some 0, pixmap_type = 4, fbo = None\<rparr>"
    using glamor_create_pixmap_returns_pixmap [of 0 10 example_h example_pixmap_env example_active_world 24 0 example_priv]
      h1 feas env
    by (auto simp: example_active_world_heap)
  from n1 n2 h1 a b c show ?thesis by simp
qed

text \<open>
  C4 as stated, that every request whose width or height exceeds the maximum render
  target dimension is handed to the software path, fails: on the initialized example
  screen (maximum 4096) a request of width 40000 is not handed to \<^verbatim>\<open>fbCreatePixmap\<close>;
  \<^verbatim>\<open>NullPixmap\<close> is returned and no pixmap is created.
\<close>

theorem glamor_create_pixmap_infeasible_counterexample:
  "screen_private (screen example_active_world) = Some example_priv \<and>
   max_fbo_size example_priv < 40000 \<and>
   glamor_create_pixmap example_h example_pixmap_env example_active_world 40000 100 24 0
     = Some (None, example_active_world) \<and>
   glamor_create_pixmap example_h example_pixmap_env example_active_world 40000 100 24 0
     \<noteq> Some (Some (fst (fbCreatePixmap example_pixmap_env example_active_world
                           40000 100 24 0)),
              snd (fbCreatePixmap example_pixmap_env example_active_world 40000 100 24 0))"
  by (simp add: glamor_create_pixmap_def example_active_world_private example_priv_def)

text \<open>
  C4, amended. Every request with a width or a height above 32767 returns
  \<^verbatim>\<open>NullPixmap\<close> and leaves the state as it is, so nothing is handed to the software
  path. On a screen with a context record, a request with width and height of at most
  32767 whose width or height exceeds the maximum render target dimension, whose depth is
  not supported, or whose usage is CPU-forced is handed to \<^verbatim>\<open>fbCreatePixmap\<close> with the
  arguments as given: the result and the new state are those of that one call, no other
  call is made, the pixmap returned has the size asked for and no binding record, and the
  heap of binding records is untouched.
\<close>

theorem glamor_create_pixmap_infeasible_is_software:
  "(32767 < w \<or> 32767 < h \<longrightarrow> glamor_create_pixmap H E W w h d u = Some (None, W)) \<and>
   (screen_private (screen W) = Some P \<and> w \<le> 32767 \<and> h \<le> 32767 \<and>
    (max_fbo_size P < w \<or> max_fbo_size P < h \<or> \<not> glamor_check_fbo_depth H d
       \<or> u = GLAMOR_CREATE_PIXMAP_CPU H) \<longrightarrow>
     (\<exists>p W' pm.
        glamor_create_pixmap H E W w h d u = Some (Some p, W') \<and>
        (p, W') = fbCreatePixmap E W w h d u \<and>
        trace W' = trace W @ [Ev_fbCreatePixmap p w h d u] \<and>
        pixmaps W' p = Some pm \<and> pixmap_private pm = None \<and>
        width pm = w \<and> height pm = h \<and>
        pixmap_privs W' = pixmap_privs W))"
  by (auto simp: glamor_create_pixmap_def glamor_check_fbo_size_def fbCreatePixmap_def
        emit_def Let_def)

theorem glamor_create_pixmap_infeasible_is_software_witness:
  "(32767 :: int) < 40000 \<and>
   glamor_create_pixmap example_h example_pixmap_env example_active_world 40000 100 24 0
     = Some (None, example_active_world) \<and>
   glamor_create_pixmap example_h example_pixmap_env example_active_world 100 40000 24 0
     = Some (None, example_active_world) \<and>
   screen_private (screen example_active_world) = Some example_priv \<and>
   (5000 :: int) \<le> 32767 \<and> (10 :: int) \<le> 32767 \<and>
   max_fbo_size example_priv < 5000 \<and>
   (\<exists>p W' pm.
      glamor_create_pixmap example_h example_pixmap_env example_active_world 5000 10 24 0
        = Some (Some p, W') \<and>
      (p, W') = fbCreatePixmap example_pixmap_env example_active_world 5000 10 24 0 \<and>
      trace W' = trace example_active_world @ [Ev_fbCreatePixmap p 5000 10 24 0] \<and>
      pixmaps W' p = Some pm \<and> pixmap_private pm = None \<and>
      width pm = 5000 \<and> height pm = 10 \<and>
      pixmap_privs W' = pixmap_privs example_active_world)"
proof -
  have h1: "screen_private (screen example_active_world) = Some example_priv"
    by (rule example_active_world_private)
  have h4: "max_fbo_size example_priv < 5000"
    by (simp add: example_priv_def)
  have n1: "glamor_create_pixmap example_h example_pixmap_env example_active_world
              40000 100 24 0 = Some (None, example_active_world)"
    using glamor_create_pixmap_infeasible_is_software
            [of 40000 100 example_h example_pixmap_env example_active_world 24 0]
    by simp
  have n2: "glamor_create_pixmap example_h example_pixmap_env example_active_world
              100 40000 24 0 = Some (None, example_active_world)"
    using glamor_create_pixmap_infeasible_is_software
            [of 100 40000 example_h example_pixmap_env example_active_world 24 0]
    by simp
  have a: "\<exists>p W' pm.
      glamor_create_pixmap example_h example_pixmap_env example_active_world 5000 10 24 0
        = Some (Some p, W') \<and>
      (p, W') = fbCreatePixmap example_pixmap_env example_active_world 5000 10 24 0 \<and>
      trace W' = trace example_active_world @ [Ev_fbCreatePixmap p 5000 10 24 0] \<and>
      pixmaps W' p = Some pm \<and> pixmap_private pm = None \<and>
      width pm = 5000 \<and> height pm = 10 \<and>
      pixmap_privs W' = pixmap_privs example_active_world"
    using glamor_create_pixmap_infeasible_is_software
            [of 5000 10 example_h example_pixmap_env example_active_world 24 0 example_priv]
          h1 h4
    by simp
  from n1 n2 h1 h4 a show ?thesis by simp
qed

text \<open>
  C6. For a feasible request of non-empty size, when the binding record was allocated and
  the pool returns no render target, the result is given in full: the placeholder is
  destroyed, its binding record is freed (the address that \<^verbatim>\<open>calloc\<close> handed out holds
  no record any more), and the pixmap returned is a second one, the software pixmap of
  the size and depth asked for, without binding record; the calls made are: create the
  placeholder, ask the pool, destroy the placeholder, create the software pixmap. And
  whatever the request and the answers of host and pool: a pixmap that is returned with
  a binding record points to a live record that names it as its container, and that
  record owns a render target unless the size is empty.
\<close>

theorem glamor_create_pixmap_never_half_bound:
  "(screen_private (screen W) = Some P \<and> w \<le> 32767 \<and> h \<le> 32767 \<and>
    glamor_check_fbo_size P w h \<and> glamor_check_fbo_depth H d \<and>
    u \<noteq> GLAMOR_CREATE_PIXMAP_CPU H \<and> priv_calloc_ok E \<and> w \<noteq> 0 \<and> h \<noteq> 0 \<and>
    create_fbo_result E = None \<longrightarrow>
      glamor_create_pixmap H E W w h d u =
        Some (Some (Suc (next_pixmap W)),
              W\<lparr>pixmaps := ((pixmaps W)(next_pixmap W := None))
                    (Suc (next_pixmap W) \<mapsto>
                       \<lparr>width = w, height = h, depth = d,
                        bitsPerPixel = BitsPerPixel E d, refcnt = 1,
                        pixmap_private = None\<rparr>),
                next_pixmap := Suc (Suc (next_pixmap W)),
                pixmap_privs := (pixmap_privs W)(next_priv W := None),
                next_priv := Suc (next_priv W),
                trace := trace W @
                  [Ev_fbCreatePixmap (next_pixmap W) 0 0 d u,
                   Ev_glamor_create_fbo w h d u,
                   Ev_fbDestroyPixmap (next_pixmap W),
                   Ev_fbCreatePixmap (Suc (next_pixmap W)) w h d u]\<rparr>)) \<and>
   (\<forall>p W' pm a.
      glamor_create_pixmap H E W w h d u = Some (Some p, W') \<and>
      pixmaps W' p = Some pm \<and> pixmap_private pm = Some a \<longrightarrow>
      (\<exists>b. pixmap_privs W' a = Some b \<and> container b = Some p \<and>
           (fbo b = None \<longrightarrow> w = 0 \<or> h = 0)))"
  by (auto simp: pixmap_defs emit_def Let_def split: option.splits if_splits)

theorem glamor_create_pixmap_never_half_bound_witness:
  "screen_private (screen example_active_world) = Some example_priv \<and>
   glamor_check_fbo_size example_priv 100 50 \<and> glamor_check_fbo_depth example_h 24 \<and>
   0 \<noteq> GLAMOR_CREATE_PIXMAP_CPU example_h \<and>
   priv_calloc_ok (example_pixmap_env\<lparr>create_fbo_result := None\<rparr>) \<and>
   create_fbo_result (example_pixmap_env\<lparr>create_fbo_result := None\<rparr>) = None \<and>
   (\<exists>W'. glamor_create_pixmap example_h (example_pixmap_env\<lparr>create_fbo_result := None\<rparr>)
           example_active_world 100 50 24 0 = Some (Some 1, W') \<and>
         pixmaps W' 0 = None \<and>
         pixmap_privs W' 0 = None \<and> next_priv W' = 1 \<and>
         pixmaps W' 1 = Some \<lparr>width = 100, height = 50, depth = 24, bitsPerPixel = 32,
                               refcnt = 1, pixmap_private = None\<rparr>)"
proof -
  have h1: "screen_private (screen example_active_world) = Some example_priv"
    by (rule example_active_world_private)
  have h2: "glamor_check_fbo_size example_priv 100 50"
    by (simp add: glamor_check_fbo_size_def example_priv_def)
  have h3: "glamor_check_fbo_depth example_h 24"
    and h4: "0 \<noteq> GLAMOR_CREATE_PIXMAP_CPU example_h"
    by (simp_all add: example_h_def)
  have h5: "priv_calloc_ok (example_pixmap_env\<lparr>create_fbo_result := None\<rparr>)"
    and h6: "create_fbo_result (example_pixmap_env\<lparr>create_fbo_result := None\<rparr>) = None"
    and h7: "BitsPerPixel example_pixmap_env 24 = 32"
    by (simp_all add: example_pixmap_env_def)
  from glamor_create_pixmap_never_half_bound
         [where W = example_active_world and P = example_priv and w = 100 and h = 50
            and H = example_h and d = 24 and u = 0
            and E = "example_pixmap_env\<lparr>create_fbo_result := None\<rparr>"]
       h1 h2 h3 h4 h5 h6
  have "\<exists>W'. glamor_create_pixmap example_h (example_pixmap_env\<lparr>create_fbo_result := None\<rparr>)
           example_active_world 100 50 24 0 = Some (Some 1, W') \<and>
         pixmaps W' 0 = None \<and>
         pixmap_privs W' 0 = None \<and> next_priv W' = 1 \<and>
         pixmaps W' 1 = Some \<lparr>width = 100, height = 50, depth = 24, bitsPerPixel = 32,
                               refcnt = 1, pixmap_private = None\<rparr>"
    by (simp add: example_active_world_heap h7)
  with h1 h2 h3 h4 h5 h6 show ?thesis by simp
qed

section \<open>Attaching a texture\<close>

text \<open>
  C7. On a pixmap with a binding record, \<^verbatim>\<open>glamor_set_pixmap_texture\<close> with a render
  target created from the texture makes these calls in this order: when the record owns a
  render target, that one is detached from the record and disposed of; then the new
  render target is created; then it is attached. Detaching leaves the record without
  render target, so the record never owns two; at the end it owns the new one, the pixmap
  is as it was and no other binding record has changed.
\<close>

theorem glamor_set_pixmap_texture_detaches_first:
  assumes "pixmaps W p = Some pm" "pixmap_private pm = Some a" "pixmap_privs W a = Some b"
  shows "\<exists>W'. glamor_set_pixmap_texture (Some new) p tex W = Some W' \<and>
           pixmaps W' p = Some pm \<and>
           pixmap_privs W' a = Some (b\<lparr>fbo := Some new\<rparr>) \<and>
           pixmap_privs W' = (pixmap_privs W)(a \<mapsto> b\<lparr>fbo := Some new\<rparr>) \<and>
           trace W' = trace W @
             (case fbo b of
                Some old \<Rightarrow> [Ev_glamor_pixmap_detach_fbo a, Ev_glamor_destroy_fbo old]
              | None \<Rightarrow> []) @
             [Ev_glamor_create_fbo_from_tex (width pm) (height pm) (depth pm) tex 0,
              Ev_glamor_pixmap_attach_fbo p new] \<and>
           fst (glamor_pixmap_detach_fbo a W) = fbo b \<and>
           pixmap_privs (snd (glamor_pixmap_detach_fbo a W)) a = Some (b\<lparr>fbo := None\<rparr>)"
  using assms
  by (auto simp: texture_defs emit_def Let_def split: option.split)

theorem glamor_set_pixmap_texture_detaches_first_witness:
  "pixmaps example_bound_world 0 = Some example_bound_pixmap \<and>
   pixmap_private example_bound_pixmap = Some 0 \<and>
   pixmap_privs example_bound_world 0 = Some example_bound_priv \<and>
   fbo example_bound_priv = Some 7 \<and>
   (\<exists>W'. glamor_set_pixmap_texture (Some 9) 0 3 example_bound_world = Some W' \<and>
         map_option fbo (pixmap_privs W' 0) = Some (Some 9) \<and>
         trace W' = trace example_bound_world @
           [Ev_glamor_pixmap_detach_fbo 0, Ev_glamor_destroy_fbo 7,
            Ev_glamor_create_fbo_from_tex 64 64 24 3 0,
            Ev_glamor_pixmap_attach_fbo 0 9])"
proof -
  have h1: "pixmaps example_bound_world 0 = Some example_bound_pixmap"
    by (rule example_bound_world_pixmap)
  have h2: "pixmap_private example_bound_pixmap = Some 0"
    by (simp add: example_bound_pixmap_def)
  have h3: "pixmap_privs example_bound_world 0 = Some example_bound_priv"
    by (rule example_bound_world_pixmap)
  have h4: "fbo example_bound_priv = Some 7"
    by (simp add: example_bound_priv_def)
  from glamor_set_pixmap_texture_detaches_first [OF h1 h2 h3, of 9 3]
  obtain W' where "glamor_set_pixmap_texture (Some 9) 0 3 example_bound_world = Some W'"
    and "pixmap_privs W' 0 = Some (example_bound_priv\<lparr>fbo := Some 9\<rparr>)"
    and "trace W' = trace example_bound_world @
           (case fbo example_bound_priv of
              Some old \<Rightarrow> [Ev_glamor_pixmap_detach_fbo 0, Ev_glamor_destroy_fbo old]
            | None \<Rightarrow> []) @
           [Ev_glamor_create_fbo_from_tex (width example_bound_pixmap)
              (height example_bound_pixmap) (depth example_bound_pixmap) 3 0,
            Ev_glamor_pixmap_attach_fbo 0 9]"
    by blast
  with h1 h2 h3 h4 show ?thesis
    by (simp add: example_bound_pixmap_def)
qed

text \<open>
  C9. On a pixmap whose binding record owns a render target, when creating the render
  target from the texture fails, \<^verbatim>\<open>glamor_set_pixmap_texture\<close> has already detached and
  disposed of the old render target and attaches nothing: it returns with the binding
  record owning no render target. The calls made are detach, dispose, create, and the
  error message; no attach.
\<close>

theorem glamor_set_pixmap_texture_failure_drops_binding:
  assumes "pixmaps W p = Some pm" "pixmap_private pm = Some a" "pixmap_privs W a = Some b"
    "fbo b = Some old"
  shows "\<exists>W'. glamor_set_pixmap_texture None p tex W = Some W' \<and>
           pixmaps W' p = Some pm \<and>
           pixmap_privs W' a = Some (b\<lparr>fbo := None\<rparr>) \<and>
           pixmap_privs W' = (pixmap_privs W)(a \<mapsto> b\<lparr>fbo := None\<rparr>) \<and>
           trace W' = trace W @
             [Ev_glamor_pixmap_detach_fbo a, Ev_glamor_destroy_fbo old,
              Ev_glamor_create_fbo_from_tex (width pm) (height pm) (depth pm) tex 0,
              Ev_ErrorF ''XXX fail to create fbo.'']"
  using assms
  by (auto simp: texture_defs emit_def Let_def split: option.split)

theorem glamor_set_pixmap_texture_failure_drops_binding_witness:
  "pixmaps example_bound_world 0 = Some example_bound_pixmap \<and>
   pixmap_private example_bound_pixmap = Some 0 \<and>
   pixmap_privs example_bound_world 0 = Some example_bound_priv \<and>
   fbo example_bound_priv = Some 7 \<and>
   (\<exists>W'. glamor_set_pixmap_texture None 0 3 example_bound_world = Some W' \<and>
         map_option fbo (pixmap_privs W' 0) = Some None \<and>
         trace W' = trace example_bound_world @
           [Ev_glamor_pixmap_detach_fbo 0, Ev_glamor_destroy_fbo 7,
            Ev_glamor_create_fbo_from_tex 64 64 24 3 0,
            Ev_ErrorF ''XXX fail to create fbo.''])"
proof -
  have h1: "pixmaps example_bound_world 0 = Some example_bound_pixmap"
    by (rule example_bound_world_pixmap)
  have h2: "pixmap_private example_bound_pixmap = Some 0"
    by (simp add: example_bound_pixmap_def)
  have h3: "pixmap_privs example_bound_world 0 = Some example_bound_priv"
    by (rule example_bound_world_pixmap)
  have h4: "fbo example_bound_priv = Some 7"
    by (simp add: example_bound_priv_def)
  from glamor_set_pixmap_texture_failure_drops_binding [OF h1 h2 h3 h4, of 3]
  obtain W' where "glamor_set_pixmap_texture None 0 3 example_bound_world = Some W'"
    and "pixmap_privs W' 0 = Some (example_bound_priv\<lparr>fbo := None\<rparr>)"
    and "trace W' = trace example_bound_world @
           [Ev_glamor_pixmap_detach_fbo 0, Ev_glamor_destroy_fbo 7,
            Ev_glamor_create_fbo_from_tex (width example_bound_pixmap)
              (height example_bound_pixmap) (depth example_bound_pixmap) 3 0,
            Ev_ErrorF ''XXX fail to create fbo.'']"
    by blast
  with h1 h2 h3 h4 show ?thesis
    by (simp add: example_bound_pixmap_def)
qed

end
